theory Spec2Isabelle
  imports Complex_Main "HOL-Library.Log_Nat"
begin

text \<open>
  A shallow embedding of \<open>analisis_desarrollo_Version2.py\<close>: the dataclass
  \<open>ProyectoSoftware\<close> with its constructor, \<open>avanzar_fase\<close>, \<open>agregar_requerimiento\<close>,
  \<open>resumen_progreso\<close>, \<open>exportar_json\<close> and \<open>cargar_json\<close>. A method that assigns to
  \<open>self\<close> returns the record after the call beside its result; a raise is an \<open>Inl\<close>;
  the files and what the program asks of the interpreter and the operating system are
  arguments. \<open>mostrar_info\<close> only prints and is left out.
\<close>

section \<open>Strings\<close>

text \<open>
  A Python \<open>str\<close> is a sequence of code points. The model takes the code points
  U+0000 to U+00FF, one \<^typ>\<open>char\<close> each, which covers every literal of the source
  (the accented phase names included). On this range \<open>str.strip()\<close> and
  \<open>str.lower()\<close> act character by character and are written out in full below.
\<close>

definition isspace :: "char \<Rightarrow> bool" where
  \<comment> \<open>the characters \<open>str.strip()\<close> removes: TAB, LF, VT, FF, CR, FS, GS, RS, US, space,
      NEL (U+0085) and the no-break space (U+00A0)\<close>
  "isspace c =
     (let n = (of_char c :: nat)
      in (9 \<le> n \<and> n \<le> 13) \<or> (28 \<le> n \<and> n \<le> 32) \<or> n = 133 \<or> n = 160)"

definition str_strip :: "string \<Rightarrow> string" where
  "str_strip s = rev (dropWhile isspace (rev (dropWhile isspace s)))"

definition lower_char :: "char \<Rightarrow> char" where
  \<comment> \<open>A to Z, and U+00C0 to U+00DE without the multiplication sign U+00D7\<close>
  "lower_char c =
     (let n = (of_char c :: nat)
      in if (65 \<le> n \<and> n \<le> 90) \<or> (192 \<le> n \<and> n \<le> 222 \<and> n \<noteq> 215)
         then char_of (n + 32) else c)"

definition str_lower :: "string \<Rightarrow> string" where
  "str_lower s = map lower_char s"

section \<open>The project record\<close>

text \<open>The exceptions the program can end in; the last three are what \<open>open\<close> may raise
  besides FileNotFoundError. \<open>Untypable\<close> is not an exception: it is the answer of the
  model where Python goes on with an object that the record type below cannot hold (see
  \<open>construir\<close>).\<close>

datatype error = ValueError | FileExistsError | FileNotFoundError | JSONDecodeError
  | AttributeError | TypeError | Untypable
  | NotADirectoryError | IsADirectoryError | PermissionError

record date =
  year :: nat
  month :: nat
  day :: nat

record proyecto =
  nombre :: string
  descripcion :: string
  requerimientos :: "string list"
  fase_actual :: string
  equipo :: "string list"
  fecha_inicio :: "date option"
  fecha_fin_estimada :: "date option"

definition analisis :: string where
  "analisis = ''an'' @ [CHR 0xE1] @ ''lisis''"

definition CICLO_VIDA :: "string list" where
  \<comment> \<open>a field with \<open>init=False\<close> and the same default for every instance, which no method
      assigns: a constant\<close>
  "CICLO_VIDA =
     [analisis,
      ''dise'' @ [CHR 0xF1] @ ''o'',
      ''desarrollo'',
      ''pruebas'',
      ''implementaci'' @ [CHR 0xF3] @ ''n'',
      ''mantenimiento'']"

fun index_of :: "'a list \<Rightarrow> 'a \<Rightarrow> nat option" where
  \<comment> \<open>\<open>list.index\<close>: the first position, \<open>None\<close> where Python raises ValueError\<close>
  "index_of [] x = None"
| "index_of (y # ys) x = (if y = x then Some 0 else map_option Suc (index_of ys x))"

definition ProyectoSoftware ::
  "date \<Rightarrow> string \<Rightarrow> string \<Rightarrow> string list option \<Rightarrow> string option \<Rightarrow> string list option
     \<Rightarrow> date option \<Rightarrow> date option \<Rightarrow> proyecto" where
  \<comment> \<open>the generated \<open>__init__\<close> followed by \<open>__post_init__\<close>; \<open>today\<close> is what
      \<open>date.today()\<close> returns; an omitted \<open>fase_actual\<close> is \<open>Some analisis\<close>\<close>
  "ProyectoSoftware today nom des reqs fase eq fi ff =
     (let reqs' = (case reqs of None \<Rightarrow> [] | Some rs \<Rightarrow> rs);
          eq' = (case eq of None \<Rightarrow> [] | Some es \<Rightarrow> es);
          f0 = (case fase of None \<Rightarrow> analisis | Some f \<Rightarrow> if f = [] then analisis else f);
          f1 = str_lower (str_strip f0);
          f2 = (if f1 \<notin> set CICLO_VIDA then analisis else f1);
          fi' = (case fi of None \<Rightarrow> Some today | Some d \<Rightarrow> Some d)
      in \<lparr>nombre = nom, descripcion = des, requerimientos = reqs', fase_actual = f2,
          equipo = eq', fecha_inicio = fi', fecha_fin_estimada = ff\<rparr>)"

definition avanzar_fase :: "proyecto \<Rightarrow> bool \<times> proyecto" where
  \<comment> \<open>the returned record is the object after the call\<close>
  "avanzar_fase self =
     (let (idx, self1) =
            (case index_of CICLO_VIDA (fase_actual self) of
               Some i \<Rightarrow> (i, self)
             | None \<Rightarrow> (0, self\<lparr>fase_actual := analisis\<rparr>))
      in if int idx < int (length CICLO_VIDA) - 1
         then (True, self1\<lparr>fase_actual := CICLO_VIDA ! (idx + 1)\<rparr>)
         else (False, self1))"

definition agregar_requerimiento :: "proyecto \<Rightarrow> string \<Rightarrow> (error + unit) \<times> proyecto" where
  \<comment> \<open>\<open>Inl ValueError\<close> is the raise; the record beside it is the object after the call\<close>
  "agregar_requerimiento self nuevo_requerimiento =
     (if nuevo_requerimiento = [] \<or> str_strip nuevo_requerimiento = []
      then (Inl ValueError, self)
      else
        let req_clean = str_strip nuevo_requerimiento;
            exists = list_ex (\<lambda>r. str_lower (str_strip r) = str_lower req_clean)
                       (requerimientos self)
        in if exists then (Inr (), self)
           else (Inr (), self\<lparr>requerimientos := requerimientos self @ [req_clean]\<rparr>))"

section \<open>Progress: Python's float arithmetic\<close>

text \<open>
  \<open>resumen_progreso\<close> computes \<open>int(((idx + 1) / total) * 100)\<close>. In Python \<open>/\<close> on two
  ints is true division: the result is the binary64 number nearest to the exact quotient,
  ties going to the even significand. The product with 100 is a float product, rounded in
  the same way, and \<open>int\<close> drops the fraction. A finite binary64 value is kept here as
  the rational number it denotes; \<open>binary64\<close> rounds a rational to 53 significant bits
  (to a multiple of \<open>2 powi (- 1074)\<close> in the subnormal range). Overflow to infinity is
  left out: the values of this program lie between 1/6 and 100.
\<close>

definition round_half_even :: "rat \<Rightarrow> int" where
  "round_half_even q =
     (let f = \<lfloor>q\<rfloor>; r = q - of_int f
      in if r < 1 / 2 then f else if 1 / 2 < r then f + 1 else if even f then f else f + 1)"

definition ilog2 :: "rat \<Rightarrow> int" where
  \<comment> \<open>for \<open>x > 0\<close>, the \<open>k\<close> with \<open>2 powi k \<le> x < 2 powi (k + 1)\<close>, from the bit lengths of
      numerator and denominator\<close>
  "ilog2 x =
     (let (n, d) = quotient_of x;
          k = bitlen n - bitlen d
      in if 2 powi k \<le> x then k else k - 1)"

definition binary64 :: "rat \<Rightarrow> rat" where
  "binary64 x =
     (if x = 0 then 0
      else let e = max (ilog2 \<bar>x\<bar> - 52) (- 1074)
           in of_int (round_half_even (x / 2 powi e)) * 2 powi e)"

definition truediv :: "int \<Rightarrow> int \<Rightarrow> rat" where
  \<comment> \<open>\<open>a / b\<close> on ints; the only divisor of the program is \<open>len(CICLO_VIDA)\<close>, never zero\<close>
  "truediv a b = binary64 (of_int a / of_int b)"

definition float_mul :: "rat \<Rightarrow> rat \<Rightarrow> rat" where
  "float_mul x y = binary64 (x * y)"

definition int_of_float :: "rat \<Rightarrow> int" where
  \<comment> \<open>\<open>int(x)\<close>: truncation toward zero\<close>
  "int_of_float x = (if 0 \<le> x then \<lfloor>x\<rfloor> else \<lceil>x\<rceil>)"

definition resumen_progreso :: "proyecto \<Rightarrow> int" where
  "resumen_progreso self =
     (let idx = (case index_of CICLO_VIDA (fase_actual self) of Some i \<Rightarrow> i | None \<Rightarrow> 0);
          total = length CICLO_VIDA;
          progreso = int_of_float (float_mul (truediv (int idx + 1) (int total)) 100)
      in progreso)"

section \<open>Dates\<close>

text \<open>
  A \<open>datetime.date\<close> is a year, a month and a day that form a day of the proleptic
  Gregorian calendar between the years 1 and 9999; \<open>valid_date\<close> is that invariant of the
  class. \<open>isoformat\<close> prints \<open>YYYY-MM-DD\<close> with leading zeros, and
  \<open>leer_AAAA_MM_DD\<close> reads exactly that form, the one the comment in \<open>iso_a_fecha\<close>
  names and the one every interpreter's \<open>date.fromisoformat\<close> reads. What
  \<open>date.fromisoformat\<close> makes of any other string depends on the interpreter (before
  3.11 it raises ValueError; from 3.11 on it also reads compact and week forms) and is
  taken from the environment below.
\<close>

definition is_leap :: "nat \<Rightarrow> bool" where
  "is_leap y = (y mod 4 = 0 \<and> (y mod 100 \<noteq> 0 \<or> y mod 400 = 0))"

definition days_in_month :: "nat \<Rightarrow> nat \<Rightarrow> nat" where
  "days_in_month y m =
     (if m = 2 then (if is_leap y then 29 else 28)
      else if m = 4 \<or> m = 6 \<or> m = 9 \<or> m = 11 then 30 else 31)"

definition valid_date :: "date \<Rightarrow> bool" where
  "valid_date d =
     (1 \<le> year d \<and> year d \<le> 9999 \<and> 1 \<le> month d \<and> month d \<le> 12
      \<and> 1 \<le> day d \<and> day d \<le> days_in_month (year d) (month d))"

definition digit :: "nat \<Rightarrow> char" where
  "digit n = char_of (48 + n)"

fun cifras :: "nat \<Rightarrow> nat \<Rightarrow> string" where
  \<comment> \<open>\<open>n\<close> in decimal on \<open>w\<close> places, zeros in front\<close>
  "cifras 0 n = []"
| "cifras (Suc w) n = cifras w (n div 10) @ [digit (n mod 10)]"

definition isoformat :: "date \<Rightarrow> string" where
  "isoformat d = cifras 4 (year d) @ ''-'' @ cifras 2 (month d) @ ''-'' @ cifras 2 (day d)"

definition digit_val :: "char \<Rightarrow> nat option" where
  "digit_val c =
     (let n = (of_char c :: nat) in if 48 \<le> n \<and> n \<le> 57 then Some (n - 48) else None)"

fun numero :: "nat \<Rightarrow> string \<Rightarrow> nat option" where
  \<comment> \<open>the decimal number a string of ASCII digits spells, after the digits read so far\<close>
  "numero acc [] = Some acc"
| "numero acc (c # cs) =
     (case digit_val c of None \<Rightarrow> None | Some v \<Rightarrow> numero (10 * acc + v) cs)"

definition leer_AAAA_MM_DD :: "string \<Rightarrow> date option" where
  \<comment> \<open>the day a string of the form \<open>YYYY-MM-DD\<close> spells, \<open>None\<close> for any other string\<close>
  "leer_AAAA_MM_DD s =
     (if length s \<noteq> 10 \<or> s ! 4 \<noteq> CHR ''-'' \<or> s ! 7 \<noteq> CHR ''-'' then None
      else
        case (numero 0 (take 4 s), numero 0 (take 2 (drop 5 s)), numero 0 (drop 8 s)) of
          (Some y, Some m, Some d) \<Rightarrow>
            (let f = \<lparr>year = y, month = m, day = d\<rparr> in if valid_date f then Some f else None)
        | _ \<Rightarrow> None)"

text \<open>A \<open>datetime\<close> is a date with a time of day (the class derives from \<open>date\<close>);
  \<open>datetime.date()\<close> keeps the date fields.\<close>

record datetime = date +
  hour :: nat
  minute :: nat
  second :: nat
  microsecond :: nat

definition datetime_date :: "datetime \<Rightarrow> date" where
  "datetime_date dt = \<lparr>year = year dt, month = month dt, day = day dt\<rparr>"

section \<open>JSON values, files and the environment\<close>

text \<open>
  The values \<open>json.load\<close> returns. A number is an int or a float; of a float only being
  zero matters to this program, so a finite float is kept as the number it stands for
  and \<open>JNonFinite\<close> stands for NaN and the infinities, which \<open>json.load\<close> accepts. An
  object is the dict that results, as the list of its items in insertion order.
\<close>

datatype json = JNull | JBool bool | JInt int | JFloat rat | JNonFinite | JStr string
  | JArr "json list" | JObj "(string \<times> json) list"

text \<open>
  A file holds text. The text is kept by what \<open>json.load\<close> makes of it: the value it
  parses to, or, for text that is not a JSON document, the text itself. That
  \<open>json.load\<close> gives back the value \<open>json.dump\<close> wrote (a dict with string keys whose
  values are strings, lists of strings, ints and null) is taken from the library.
\<close>

datatype contenido = Json json | Texto string

type_synonym archivos = "string \<Rightarrow> contenido option"

text \<open>
  What the program takes from outside, each taken as given:
  \<^item> \<open>abspath\<close>: \<open>os.path.abspath\<close> in the current working directory;
  \<^item> \<open>hoy\<close>: \<open>date.today()\<close>;
  \<^item> \<open>abrir_escritura\<close>: what \<open>open(p, "w")\<close> does at an absolute path: \<open>None\<close> when
    the file is opened (created or truncated), the exception when it raises (a missing
    directory, a directory or a regular file in the way, missing rights);
  \<^item> \<open>date_fromisoformat_otras\<close>: what \<open>date.fromisoformat\<close> returns on a string that
    is not a day written \<open>YYYY-MM-DD\<close>, \<open>None\<close> where it raises ValueError;
  \<^item> \<open>datetime_fromisoformat\<close>: what \<open>datetime.fromisoformat\<close> returns, \<open>None\<close> where it
    raises ValueError.

  The files are looked up under their absolute paths: \<open>os.path.exists(p)\<close> and
  \<open>open(p)\<close> see the file at \<open>abspath p\<close>, and a file that is there is a regular file
  that can be read.
\<close>

record entorno =
  abspath :: "string \<Rightarrow> string"
  hoy :: date
  abrir_escritura :: "string \<Rightarrow> error option"
  date_fromisoformat_otras :: "string \<Rightarrow> date option"
  datetime_fromisoformat :: "string \<Rightarrow> datetime option"

definition date_fromisoformat :: "entorno \<Rightarrow> string \<Rightarrow> date option" where
  \<comment> \<open>\<open>date.fromisoformat\<close>: the form \<open>YYYY-MM-DD\<close> as every interpreter reads it, any
      other string as this interpreter does\<close>
  "date_fromisoformat env s =
     (case leer_AAAA_MM_DD s of
        Some d \<Rightarrow> Some d
      | None \<Rightarrow> date_fromisoformat_otras env s)"

fun truthy :: "json \<Rightarrow> bool" where
  "truthy JNull = False"
| "truthy (JBool b) = b"
| "truthy (JInt i) = (i \<noteq> 0)"
| "truthy (JFloat x) = (x \<noteq> 0)"
| "truthy JNonFinite = True"
| "truthy (JStr s) = (s \<noteq> [])"
| "truthy (JArr xs) = (xs \<noteq> [])"
| "truthy (JObj kvs) = (kvs \<noteq> [])"

definition dict_get :: "(string \<times> json) list \<Rightarrow> string \<Rightarrow> json \<Rightarrow> json" where
  \<comment> \<open>\<open>raw.get(key, default)\<close>\<close>
  "dict_get raw k dflt = (case map_of raw k of None \<Rightarrow> dflt | Some v \<Rightarrow> v)"

fun py_list :: "json \<Rightarrow> error + json list" where
  \<comment> \<open>\<open>list(x)\<close>: the elements of a list, the characters of a string, the keys of a dict;
      TypeError for a value that cannot be iterated\<close>
  "py_list (JArr xs) = Inr xs"
| "py_list (JStr s) = Inr (map (\<lambda>c. JStr [c]) s)"
| "py_list (JObj kvs) = Inr (map (\<lambda>kv. JStr (fst kv)) kvs)"
| "py_list _ = Inl TypeError"

fun a_str :: "json \<Rightarrow> string option" where
  "a_str (JStr s) = Some s"
| "a_str _ = None"

fun a_strs :: "json list \<Rightarrow> string list option" where
  "a_strs [] = Some []"
| "a_strs (v # vs) =
     (case (a_str v, a_strs vs) of (Some s, Some ss) \<Rightarrow> Some (s # ss) | _ \<Rightarrow> None)"

section \<open>Export and load\<close>

fun re_sub :: "bool \<Rightarrow> string \<Rightarrow> string" where
  \<comment> \<open>\<open>re.sub(r"[^0-9a-zA-Z-_]+", "_", s)\<close>: every maximal run of characters outside the
      class becomes one underscore; the flag says that the run has begun\<close>
  "re_sub en_racha [] = []"
| "re_sub en_racha (c # cs) =
     (let n = (of_char c :: nat)
      in if (48 \<le> n \<and> n \<le> 57) \<or> (97 \<le> n \<and> n \<le> 122) \<or> (65 \<le> n \<and> n \<le> 90)
            \<or> c = CHR ''-'' \<or> c = CHR ''_''
         then c # re_sub False cs
         else if en_racha then re_sub True cs
         else CHR ''_'' # re_sub True cs)"

definition fecha_a_iso :: "date option \<Rightarrow> json" where
  "fecha_a_iso f = (case f of None \<Rightarrow> JNull | Some d \<Rightarrow> JStr (isoformat d))"

definition datos :: "proyecto \<Rightarrow> json" where
  \<comment> \<open>the dict \<open>data\<close> of \<open>exportar_json\<close>\<close>
  "datos self =
     JObj [(''nombre'', JStr (nombre self)),
           (''descripcion'', JStr (descripcion self)),
           (''requerimientos'', JArr (map JStr (requerimientos self))),
           (''fase_actual'', JStr (fase_actual self)),
           (''equipo'', JArr (map JStr (equipo self))),
           (''fecha_inicio'', fecha_a_iso (fecha_inicio self)),
           (''fecha_fin_estimada'', fecha_a_iso (fecha_fin_estimada self)),
           (''ciclo_vida'', JArr (map JStr CICLO_VIDA)),
           (''progreso_aproximado'', JInt (resumen_progreso self))]"

definition exportar_json ::
  "entorno \<Rightarrow> archivos \<Rightarrow> proyecto \<Rightarrow> string option \<Rightarrow> bool \<Rightarrow> (error + string) \<times> archivos" where
  \<comment> \<open>the result and the files after the call; the method assigns no field of \<open>self\<close>.
      When \<open>open\<close> raises, its exception leaves the method and no file has changed\<close>
  "exportar_json env fs self ruta sobrescribir =
     (let ruta1 = (case ruta of
                     None \<Rightarrow> re_sub False (str_strip (nombre self)) @ ''_proyecto.json''
                   | Some r \<Rightarrow> r);
          abs_path = abspath env ruta1
      in if \<not> sobrescribir \<and> fs abs_path \<noteq> None then (Inl FileExistsError, fs)
         else (case abrir_escritura env abs_path of
                 Some e \<Rightarrow> (Inl e, fs)
               | None \<Rightarrow> (Inr abs_path, fs(abs_path \<mapsto> Json (datos self)))))"

definition iso_a_fecha :: "entorno \<Rightarrow> json \<Rightarrow> date option" where
  "iso_a_fecha env v =
     (case v of
        JStr s \<Rightarrow>
          if str_strip s = [] then None
          else (case date_fromisoformat env s of
                  Some d \<Rightarrow> Some d
                | None \<Rightarrow>
                    (case datetime_fromisoformat env s of
                       Some dt \<Rightarrow> Some (datetime_date dt)
                     | None \<Rightarrow> None))
      | _ \<Rightarrow> None)"

definition o_lista_vacia :: "json \<Rightarrow> json" where
  \<comment> \<open>\<open>x or []\<close>\<close>
  "o_lista_vacia v = (if truthy v then v else JArr [])"

definition fase_o_defecto :: "json \<Rightarrow> error + string option" where
  \<comment> \<open>what \<open>(self.fase_actual or ...).strip()\<close> meets: a falsy value of any type gives way
      to the default, as \<open>None\<close> does; a truthy value that is not a string has no
      \<open>strip\<close>\<close>
  "fase_o_defecto v =
     (if \<not> truthy v then Inr None
      else case v of JStr s \<Rightarrow> Inr (Some s) | _ \<Rightarrow> Inl AttributeError)"

definition construir ::
  "entorno \<Rightarrow> json \<Rightarrow> json \<Rightarrow> json \<Rightarrow> json \<Rightarrow> json \<Rightarrow> date option \<Rightarrow> date option
     \<Rightarrow> error + proyecto" where
  \<comment> \<open>the call \<open>cls(nombre=nombre, ..., requerimientos=list(requerimientos), ...)\<close> that ends
      \<open>cargar_json\<close>: the two \<open>list(...)\<close> are evaluated first, then \<open>__post_init__\<close> runs.
      \<open>Untypable\<close> is no Python exception: it marks the inputs at which Python builds an
      object whose fields do not have their annotated types (a number as \<open>nombre\<close>, a
      list inside \<open>equipo\<close>), which the record type cannot hold\<close>
  "construir env nombre0 descripcion0 requerimientos0 fase0 equipo0 fecha_inicio0 fecha_fin0 =
     (case py_list requerimientos0 of
        Inl e \<Rightarrow> Inl e
      | Inr rs \<Rightarrow>
     (case py_list equipo0 of
        Inl e \<Rightarrow> Inl e
      | Inr es \<Rightarrow>
     (case fase_o_defecto fase0 of
        Inl e \<Rightarrow> Inl e
      | Inr fase \<Rightarrow>
     (case (a_str nombre0, a_str descripcion0, a_strs rs, a_strs es) of
        (Some n, Some d, Some rs1, Some es1) \<Rightarrow>
          Inr (ProyectoSoftware (hoy env) n d (Some rs1) fase (Some es1)
                 fecha_inicio0 fecha_fin0)
      | _ \<Rightarrow> Inl Untypable))))"

definition desde_dict :: "entorno \<Rightarrow> (string \<times> json) list \<Rightarrow> error + proyecto" where
  \<comment> \<open>\<open>cargar_json\<close> from the line after \<open>json.load\<close>, for a dict\<close>
  "desde_dict env raw =
     (let nombre0 = dict_get raw ''nombre'' (JStr ''Proyecto sin nombre'');
          descripcion0 = dict_get raw ''descripcion'' (JStr []);
          requerimientos0 = o_lista_vacia (dict_get raw ''requerimientos'' JNull);
          equipo0 = o_lista_vacia (dict_get raw ''equipo'' JNull);
          fase0 = dict_get raw ''fase_actual'' (JStr analisis);
          fecha_inicio0 = iso_a_fecha env (dict_get raw ''fecha_inicio'' JNull);
          fecha_fin0 = iso_a_fecha env (dict_get raw ''fecha_fin_estimada'' JNull)
      in construir env nombre0 descripcion0 requerimientos0 fase0 equipo0
           fecha_inicio0 fecha_fin0)"

definition cargar_json :: "entorno \<Rightarrow> archivos \<Rightarrow> string \<Rightarrow> error + proyecto" where
  "cargar_json env fs ruta =
     (case fs (abspath env ruta) of
        None \<Rightarrow> Inl FileNotFoundError
      | Some (Texto t) \<Rightarrow> Inl JSONDecodeError
      | Some (Json (JObj raw)) \<Rightarrow> desde_dict env raw
      | Some (Json _) \<Rightarrow> Inl AttributeError)"

section \<open>Harness for stating the properties\<close>

text \<open>\<open>n\<close> successive calls of \<open>avanzar_fase\<close>: the values returned, in order, and the
  record after the last call.\<close>

fun avanzar_veces :: "nat \<Rightarrow> proyecto \<Rightarrow> bool list \<times> proyecto" where
  "avanzar_veces 0 self = ([], self)"
| "avanzar_veces (Suc n) self =
     (let (b, self1) = avanzar_fase self;
          (bs, self2) = avanzar_veces n self1
      in (b # bs, self2))"

text \<open>The duplicate test as the specification words it: the trimmed text equals an
  existing requirement under case-insensitive comparison. The existing requirement is
  compared as stored.\<close>

definition duplicado_segun_spec :: "string list \<Rightarrow> string \<Rightarrow> bool" where
  "duplicado_segun_spec reqs texto =
     list_ex (\<lambda>r. str_lower r = str_lower (str_strip texto)) reqs"

definition fecha_demo :: date where
  "fecha_demo = \<lparr>year = 2025, month = 11, day = 1\<rparr>"

text \<open>A project built with a requirement that carries a leading space, as
  \<open>ProyectoSoftware("Demo", "d", requerimientos=[" Login"])\<close> does.\<close>

definition proyecto_sin_recortar :: proyecto where
  "proyecto_sin_recortar =
     ProyectoSoftware fecha_demo ''Demo'' ''d'' (Some ['' Login'']) None None None None"

definition proyecto_demo :: proyecto where
  "proyecto_demo =
     \<lparr>nombre = ''Demo'', descripcion = ''d'', requerimientos = [],
      fase_actual = analisis, equipo = [],
      fecha_inicio = Some fecha_demo,
      fecha_fin_estimada = None\<rparr>"

text \<open>An environment and files for the examples: a working directory \<open>/home/demo\<close>
  without subdirectories, in which \<open>open(p, "w")\<close> opens the names directly under it,
  finds a regular file in the way below \<open>no.json\<close> and no directory anywhere else; an
  interpreter whose \<open>date.fromisoformat\<close> reads \<open>YYYY-MM-DD\<close> only; and in place of
  \<open>datetime.fromisoformat\<close> a reader of \<open>YYYY-MM-DD\<close>, one separator and \<open>HH:MM\<close>.\<close>

definition abspath_demo :: "string \<Rightarrow> string" where
  "abspath_demo p = (if take 1 p = ''/'' then p else ''/home/demo/'' @ p)"

definition abrir_demo :: "string \<Rightarrow> error option" where
  "abrir_demo p =
     (if take 11 p = ''/home/demo/'' \<and> CHR ''/'' \<notin> set (drop 11 p) \<and> drop 11 p \<noteq> []
      then None
      else if take 19 p = ''/home/demo/no.json/'' then Some NotADirectoryError
      else Some FileNotFoundError)"

definition datetime_demo :: "string \<Rightarrow> datetime option" where
  "datetime_demo s =
     (case leer_AAAA_MM_DD (take 10 s) of
        None \<Rightarrow> None
      | Some d \<Rightarrow>
          if length s = 16 \<and> s ! 13 = CHR '':''
          then (case (numero 0 (take 2 (drop 11 s)), numero 0 (drop 14 s)) of
                  (Some h, Some m) \<Rightarrow>
                    if h < 24 \<and> m < 60
                    then Some \<lparr>year = year d, month = month d, day = day d,
                               hour = h, minute = m, second = 0, microsecond = 0\<rparr>
                    else None
                | _ \<Rightarrow> None)
          else None)"

definition entorno_demo :: entorno where
  "entorno_demo =
     \<lparr>abspath = abspath_demo, hoy = fecha_demo, abrir_escritura = abrir_demo,
      date_fromisoformat_otras = (\<lambda>s. None), datetime_fromisoformat = datetime_demo\<rparr>"

text \<open>The same environment under an interpreter that reads the compact form as CPython
  3.11 does: \<open>date.fromisoformat\<close> takes eight digits \<open>YYYYMMDD\<close>, alone or followed by two
  more characters that it does not look at (\<open>date.fromisoformat("2025011201")\<close> is
  \<open>date(2025, 1, 12)\<close> there, and \<open>datetime.fromisoformat("2025011201")\<close> raises
  ValueError).\<close>

definition compacta_311 :: "string \<Rightarrow> date option" where
  "compacta_311 s =
     (if length s = 8 \<or> length s = 10
      then (case (numero 0 (take 4 s), numero 0 (take 2 (drop 4 s)),
                  numero 0 (take 2 (drop 6 s))) of
              (Some y, Some m, Some d) \<Rightarrow>
                (let f = \<lparr>year = y, month = m, day = d\<rparr>
                 in if valid_date f then Some f else None)
            | _ \<Rightarrow> None)
      else None)"

definition entorno_311 :: entorno where
  "entorno_311 = entorno_demo\<lparr>date_fromisoformat_otras := compacta_311\<rparr>"

text \<open>A project with requirements, a team, both dates and the fourth phase; and the same
  project after the assignment \<open>p.fase_actual = " PRUEBAS "\<close>, which the dataclass
  allows.\<close>

definition proyecto_rico :: proyecto where
  "proyecto_rico =
     \<lparr>nombre = ''Sistema'', descripcion = ''Estudiantes y cursos'',
      requerimientos = [''Registro de estudiantes'', ''Reportes''],
      fase_actual = CICLO_VIDA ! 3, equipo = [''Ana'', ''Luis''],
      fecha_inicio = Some fecha_demo,
      fecha_fin_estimada = Some \<lparr>year = 2026, month = 4, day = 30\<rparr>\<rparr>"

definition proyecto_fase_asignada :: proyecto where
  "proyecto_fase_asignada = proyecto_rico\<lparr>fase_actual := '' PRUEBAS ''\<rparr>"

text \<open>The absolute path \<open>exportar_json\<close> resolves: of the path given or, when none is
  given, of the sanitized name followed by \<open>_proyecto.json\<close>.\<close>

definition destino :: "entorno \<Rightarrow> proyecto \<Rightarrow> string option \<Rightarrow> string" where
  "destino env self ruta =
     abspath env
       (case ruta of
          None \<Rightarrow> re_sub False (str_strip (nombre self)) @ ''_proyecto.json''
        | Some r \<Rightarrow> r)"

definition archivos_demo :: archivos where
  "archivos_demo = [''/home/demo/no.json'' \<mapsto> Texto ''not json'']"




text \<open>A dict without its two date keys.\<close>

definition sin_fechas :: "(string \<times> json) list \<Rightarrow> (string \<times> json) list" where
  "sin_fechas raw =
     filter (\<lambda>kv. fst kv \<noteq> ''fecha_inicio'' \<and> fst kv \<noteq> ''fecha_fin_estimada'') raw"


text \<open>A dict whose start date cannot be read and whose end date carries a time.\<close>

definition dict_fechas :: "(string \<times> json) list" where
  "dict_fechas =
     [(''nombre'', JStr ''Demo''),
      (''fecha_inicio'', JStr ''pronto''),
      (''fecha_fin_estimada'', JStr ''2026-04-30T18:00'')]"

section \<open>Strings and the life cycle: basic facts\<close>

lemma index_of_Some: "index_of xs x = Some i \<Longrightarrow> i < length xs \<and> xs ! i = x"
  by (induction xs arbitrary: i) (auto split: if_splits)

lemma index_of_None: "index_of xs x = None \<longleftrightarrow> x \<notin> set xs"
  by (induction xs) auto

lemma index_of_nth: "distinct xs \<Longrightarrow> i < length xs \<Longrightarrow> index_of xs (xs ! i) = Some i"
proof (induction xs arbitrary: i)
  case Nil
  then show ?case by simp
next
  case (Cons y ys)
  show ?case
  proof (cases i)
    case 0
    then show ?thesis by simp
  next
    case (Suc j)
    with Cons.prems have "ys ! j \<noteq> y" by auto
    with Suc Cons show ?thesis by simp
  qed
qed

lemma length_CICLO_VIDA: "length CICLO_VIDA = 6"
  by (simp add: CICLO_VIDA_def)

lemma distinct_CICLO_VIDA: "distinct CICLO_VIDA"
  by (simp add: CICLO_VIDA_def analisis_def)

lemma analisis_in: "analisis \<in> set CICLO_VIDA"
  by (simp add: CICLO_VIDA_def)

lemma str_strip_Nil_iff: "str_strip s = [] \<longleftrightarrow> (\<forall>c\<in>set s. isspace c)"
proof
  assume a: "str_strip s = []"
  have "dropWhile isspace s = []"
  proof (rule ccontr)
    assume n: "dropWhile isspace s \<noteq> []"
    then have "\<not> isspace (hd (dropWhile isspace s))" by (rule hd_dropWhile)
    moreover from n have "hd (dropWhile isspace s) \<in> set (dropWhile isspace s)" by simp
    moreover from a have "\<forall>c\<in>set (dropWhile isspace s). isspace c"
      by (simp add: str_strip_def)
    ultimately show False by blast
  qed
  then show "\<forall>c\<in>set s. isspace c" by simp
next
  assume "\<forall>c\<in>set s. isspace c"
  then have d: "dropWhile isspace s = []" by simp
  show "str_strip s = []" unfolding str_strip_def d by simp
qed

lemma isspace_lower_char: "isspace (lower_char c) = isspace c"
proof -
  show ?thesis
    by (auto simp add: isspace_def lower_char_def Let_def)
qed

lemma str_strip_lower: "str_strip (str_lower s) = str_lower (str_strip s)"
proof -
  have c: "isspace \<circ> lower_char = isspace" by (rule ext) (simp add: isspace_lower_char)
  show ?thesis
    by (simp add: str_strip_def str_lower_def dropWhile_map rev_map c)
qed

lemma dropWhile_fix: "xs = [] \<or> \<not> P (hd xs) \<Longrightarrow> dropWhile P xs = xs"
  by (cases xs) auto

lemma str_strip_idem: "str_strip (str_strip s) = str_strip s"
proof -
  define ys where "ys = dropWhile isspace s"
  define zs where "zs = dropWhile isspace (rev ys)"
  have ys: "ys = [] \<or> \<not> isspace (hd ys)" unfolding ys_def
    using hd_dropWhile [of isspace s] by blast
  have zs: "zs = [] \<or> \<not> isspace (hd zs)" unfolding zs_def
    using hd_dropWhile [of isspace "rev ys"] by blast
  have "zs = [] \<or> \<not> isspace (last zs)"
  proof (cases "zs = []")
    case False
    then have "rev ys \<noteq> []" by (auto simp: zs_def)
    obtain as where "rev ys = as @ zs"
      unfolding zs_def by (metis takeWhile_dropWhile_id)
    with False have "last zs = last (rev ys)" by simp
    also have "\<dots> = hd ys" using \<open>rev ys \<noteq> []\<close> by (simp add: last_rev)
    finally show ?thesis using ys \<open>rev ys \<noteq> []\<close> by auto
  qed simp
  then have "rev zs = [] \<or> \<not> isspace (hd (rev zs))" by (auto simp: hd_rev)
  then have 1: "dropWhile isspace (rev zs) = rev zs" by (rule dropWhile_fix)
  have 2: "dropWhile isspace zs = zs" using zs by (rule dropWhile_fix)
  have "str_strip s = rev zs" by (simp add: str_strip_def ys_def zs_def)
  moreover have "str_strip (rev zs) = rev zs" by (simp add: str_strip_def 1 2)
  ultimately show ?thesis by simp
qed

lemma fase_CICLO_VIDA: "list_all (\<lambda>s. str_lower (str_strip s) = s) CICLO_VIDA"
  by code_simp


lemma avanzar_fase_Some:
  assumes "index_of CICLO_VIDA (fase_actual p) = Some i"
  shows "avanzar_fase p =
           (if i < 5 then (True, p\<lparr>fase_actual := CICLO_VIDA ! (i + 1)\<rparr>) else (False, p))"
  using assms by (auto simp add: avanzar_fase_def length_CICLO_VIDA)

lemma avanzar_fase_None:
  assumes "index_of CICLO_VIDA (fase_actual p) = None"
  shows "avanzar_fase p = (True, p\<lparr>fase_actual := CICLO_VIDA ! 1\<rparr>)"
  using assms by (simp add: avanzar_fase_def length_CICLO_VIDA)

lemma nth_CICLO_VIDA_in: "i < 6 \<Longrightarrow> CICLO_VIDA ! i \<in> set CICLO_VIDA"
  by (simp add: length_CICLO_VIDA)

lemma avanzar_fase_member: "fase_actual (snd (avanzar_fase p)) \<in> set CICLO_VIDA"
proof (cases "index_of CICLO_VIDA (fase_actual p)")
  case None
  then show ?thesis by (simp add: avanzar_fase_None nth_CICLO_VIDA_in)
next
  case (Some i)
  then have "fase_actual p \<in> set CICLO_VIDA"
    using index_of_None [of CICLO_VIDA "fase_actual p"] by simp
  with Some show ?thesis by (simp add: avanzar_fase_Some nth_CICLO_VIDA_in)
qed

lemma ProyectoSoftware_fase:
  "fase_actual (ProyectoSoftware today n d rs (Some x) e fi ff) =
     (if str_lower (str_strip x) \<in> set CICLO_VIDA then str_lower (str_strip x) else analisis)"
proof (cases "x = []")
  case True
  have "str_lower (str_strip analisis) = analisis" by code_simp
  moreover have "[] \<notin> set CICLO_VIDA" by (simp add: CICLO_VIDA_def analisis_def)
  ultimately show ?thesis using True
    by (simp add: ProyectoSoftware_def Let_def str_strip_def str_lower_def analisis_in)
next
  case False
  then show ?thesis by (simp add: ProyectoSoftware_def Let_def)
qed

lemma ProyectoSoftware_fase_None:
  "fase_actual (ProyectoSoftware today n d rs None e fi ff) = analisis"
proof -
  have "str_lower (str_strip analisis) = analisis" by code_simp
  then show ?thesis by (simp add: ProyectoSoftware_def Let_def)
qed

lemma ProyectoSoftware_member:
  "fase_actual (ProyectoSoftware today n d rs f e fi ff) \<in> set CICLO_VIDA"
  by (cases f) (simp_all add: ProyectoSoftware_fase ProyectoSoftware_fase_None analisis_in)

lemma agregar_fase:
  "fase_actual (snd (agregar_requerimiento p t)) = fase_actual p"
  by (simp add: agregar_requerimiento_def Let_def)

text \<open>
  Claim C2. The current phase is one of the six phases of the life cycle: right after
  construction, where the supplied value is stripped and lowercased and anything that is
  then not a phase (the empty and the all-whitespace string included) becomes the first
  phase; after \<open>avanzar_fase\<close>, whatever the phase was before; and after
  \<open>agregar_requerimiento\<close>, which keeps a phase that was one.
\<close>
theorem fase_actual_siempre_en_CICLO_VIDA:
  "length CICLO_VIDA = 6
   \<and> fase_actual (ProyectoSoftware today n d rs f e fi ff) \<in> set CICLO_VIDA
   \<and> fase_actual (ProyectoSoftware today n d rs (Some x) e fi ff) =
       (if str_lower (str_strip x) \<in> set CICLO_VIDA then str_lower (str_strip x)
        else CICLO_VIDA ! 0)
   \<and> ((\<forall>c\<in>set x. isspace c) \<longrightarrow>
        fase_actual (ProyectoSoftware today n d rs (Some x) e fi ff) = CICLO_VIDA ! 0)
   \<and> fase_actual (snd (avanzar_fase p)) \<in> set CICLO_VIDA
   \<and> (fase_actual p \<in> set CICLO_VIDA \<longrightarrow>
        fase_actual (snd (agregar_requerimiento p t)) \<in> set CICLO_VIDA)"
proof -
  have a0: "CICLO_VIDA ! 0 = analisis" by (simp add: CICLO_VIDA_def)
  have ws: "(\<forall>c\<in>set x. isspace c) \<longrightarrow>
        fase_actual (ProyectoSoftware today n d rs (Some x) e fi ff) = analisis"
  proof
    assume "\<forall>c\<in>set x. isspace c"
    then have "str_strip x = []" by (simp add: str_strip_Nil_iff)
    moreover have "[] \<notin> set CICLO_VIDA" by (simp add: CICLO_VIDA_def analisis_def)
    ultimately show "fase_actual (ProyectoSoftware today n d rs (Some x) e fi ff) = analisis"
      by (simp add: ProyectoSoftware_fase str_lower_def)
  qed
  show ?thesis
    using ws by (simp add: length_CICLO_VIDA ProyectoSoftware_member ProyectoSoftware_fase
        avanzar_fase_member agregar_fase a0)
qed

theorem fase_actual_siempre_en_CICLO_VIDA_witness:
  "fase_actual (ProyectoSoftware \<lparr>year = 2025, month = 11, day = 1\<rparr> ''n'' ''d'' None
      (Some ''  Pruebas '') None None None) = CICLO_VIDA ! 3
   \<and> fase_actual (ProyectoSoftware \<lparr>year = 2025, month = 11, day = 1\<rparr> ''n'' ''d'' None
      (Some ''   '') None None None) = CICLO_VIDA ! 0
   \<and> fase_actual (snd (agregar_requerimiento proyecto_demo ''Login'')) \<in> set CICLO_VIDA"
proof -
  note t1 = fase_actual_siempre_en_CICLO_VIDA
    [of "\<lparr>year = 2025, month = 11, day = 1\<rparr>" "''n''" "''d''" None None None None None
        "''  Pruebas ''" proyecto_demo "''Login''"]
  note t2 = fase_actual_siempre_en_CICLO_VIDA
    [of "\<lparr>year = 2025, month = 11, day = 1\<rparr>" "''n''" "''d''" None None None None None
        "''   ''" proyecto_demo "''Login''"]
  have m: "str_lower (str_strip ''  Pruebas '') = CICLO_VIDA ! 3" by code_simp
  have i: "CICLO_VIDA ! 3 \<in> set CICLO_VIDA" by (simp add: nth_CICLO_VIDA_in)
  have w: "\<forall>c\<in>set ''   ''. isspace c" by (simp add: isspace_def)
  have d: "fase_actual proyecto_demo \<in> set CICLO_VIDA"
    by (simp add: proyecto_demo_def analisis_in)
  from t1 have "fase_actual (ProyectoSoftware \<lparr>year = 2025, month = 11, day = 1\<rparr> ''n'' ''d'' None
      (Some ''  Pruebas '') None None None) =
      (if str_lower (str_strip ''  Pruebas '') \<in> set CICLO_VIDA
       then str_lower (str_strip ''  Pruebas '') else CICLO_VIDA ! 0)" by blast
  then have a: "fase_actual (ProyectoSoftware \<lparr>year = 2025, month = 11, day = 1\<rparr> ''n'' ''d'' None
      (Some ''  Pruebas '') None None None) = CICLO_VIDA ! 3"
    unfolding m using i by (simp only: if_True)
  from t2 w have b: "fase_actual (ProyectoSoftware \<lparr>year = 2025, month = 11, day = 1\<rparr> ''n'' ''d'' None
      (Some ''   '') None None None) = CICLO_VIDA ! 0" by blast
  from t1 d have c: "fase_actual (snd (agregar_requerimiento proyecto_demo ''Login'')) \<in> set CICLO_VIDA"
    by blast
  from a b c show ?thesis by blast
qed

section \<open>Advancing the phase\<close>

lemma index_of_le5: "index_of CICLO_VIDA f = Some i \<Longrightarrow> i \<le> 5"
  using index_of_Some [of CICLO_VIDA f i] by (simp add: length_CICLO_VIDA)

lemma index_of_CICLO_VIDA_nth: "i < 6 \<Longrightarrow> index_of CICLO_VIDA (CICLO_VIDA ! i) = Some i"
  by (simp add: index_of_nth distinct_CICLO_VIDA length_CICLO_VIDA)

lemma avanzar_fase_at:
  assumes "fase_actual p = CICLO_VIDA ! i" and "i < 5"
  shows "avanzar_fase p = (True, p\<lparr>fase_actual := CICLO_VIDA ! (i + 1)\<rparr>)"
proof -
  from assms have "index_of CICLO_VIDA (fase_actual p) = Some i"
    by (simp add: index_of_CICLO_VIDA_nth)
  with assms show ?thesis by (simp add: avanzar_fase_Some)
qed

lemma avanzar_veces_5:
  assumes "fase_actual p = CICLO_VIDA ! 0"
  shows "avanzar_veces 5 p = ([True, True, True, True, True], p\<lparr>fase_actual := CICLO_VIDA ! 5\<rparr>)"
proof -
  have n: "Suc (Suc (Suc (Suc (Suc 0)))) = 5" by simp
  have "avanzar_veces (Suc (Suc (Suc (Suc (Suc 0))))) p =
          ([True, True, True, True, True],
           p\<lparr>fase_actual := CICLO_VIDA ! Suc (Suc (Suc (Suc (Suc 0))))\<rparr>)"
    using assms by (simp add: avanzar_fase_at)
  then show ?thesis unfolding n .
qed

text \<open>
  Claim C3. When the current phase stands at index \<open>i\<close> of the life cycle, \<open>i\<close> is at
  most 5; below 5, \<open>avanzar_fase\<close> returns True and moves the phase to index \<open>i + 1\<close>;
  at 5 it returns False and the record stays as it is. From the first phase, five calls
  in a row all return True and end in the last phase, where a sixth call returns False
  and changes nothing.
\<close>
theorem avanzar_fase_por_indice:
  "(index_of CICLO_VIDA (fase_actual p) = Some i \<longrightarrow>
      i \<le> 5
      \<and> (i < 5 \<longrightarrow> avanzar_fase p = (True, p\<lparr>fase_actual := CICLO_VIDA ! (i + 1)\<rparr>))
      \<and> (i = 5 \<longrightarrow> avanzar_fase p = (False, p)))
   \<and> (fase_actual p = CICLO_VIDA ! 0 \<longrightarrow>
      avanzar_veces 5 p = ([True, True, True, True, True], p\<lparr>fase_actual := CICLO_VIDA ! 5\<rparr>)
      \<and> avanzar_fase (snd (avanzar_veces 5 p)) = (False, snd (avanzar_veces 5 p)))"
proof -
  have "avanzar_fase (p\<lparr>fase_actual := CICLO_VIDA ! 5\<rparr>) = (False, p\<lparr>fase_actual := CICLO_VIDA ! 5\<rparr>)"
    by (simp add: avanzar_fase_Some [where i = 5] index_of_CICLO_VIDA_nth)
  then show ?thesis
    by (auto simp add: index_of_le5 avanzar_fase_Some avanzar_veces_5)
qed

theorem avanzar_fase_por_indice_witness:
  "avanzar_fase proyecto_demo = (True, proyecto_demo\<lparr>fase_actual := CICLO_VIDA ! 1\<rparr>)
   \<and> avanzar_veces 5 proyecto_demo =
       ([True, True, True, True, True], proyecto_demo\<lparr>fase_actual := CICLO_VIDA ! 5\<rparr>)
   \<and> avanzar_fase (snd (avanzar_veces 5 proyecto_demo)) =
       (False, snd (avanzar_veces 5 proyecto_demo))"
proof -
  have f: "fase_actual proyecto_demo = CICLO_VIDA ! 0"
    by (simp add: proyecto_demo_def CICLO_VIDA_def)
  then have i: "index_of CICLO_VIDA (fase_actual proyecto_demo) = Some 0"
    by (simp add: index_of_CICLO_VIDA_nth)
  have l: "(0::nat) < 5" by simp
  note t = avanzar_fase_por_indice [of proyecto_demo 0]
  from t i l
  have "avanzar_fase proyecto_demo = (True, proyecto_demo\<lparr>fase_actual := CICLO_VIDA ! (0 + 1)\<rparr>)"
    by blast
  then have a: "avanzar_fase proyecto_demo = (True, proyecto_demo\<lparr>fase_actual := CICLO_VIDA ! 1\<rparr>)"
    by simp
  from t f have b: "avanzar_veces 5 proyecto_demo =
       ([True, True, True, True, True], proyecto_demo\<lparr>fase_actual := CICLO_VIDA ! 5\<rparr>)"
    by blast
  from t f have c: "avanzar_fase (snd (avanzar_veces 5 proyecto_demo)) =
       (False, snd (avanzar_veces 5 proyecto_demo))"
    by blast
  from a b c show ?thesis by blast
qed

section \<open>Adding a requirement\<close>

lemma agregar_vacio:
  "nuevo = [] \<or> str_strip nuevo = [] \<Longrightarrow> agregar_requerimiento p nuevo = (Inl ValueError, p)"
  by (simp add: agregar_requerimiento_def)

lemma agregar_no_vacio:
  "\<not> (nuevo = [] \<or> str_strip nuevo = []) \<Longrightarrow>
     agregar_requerimiento p nuevo =
       (Inr (),
        if list_ex (\<lambda>r. str_lower (str_strip r) = str_lower (str_strip nuevo)) (requerimientos p)
        then p else p\<lparr>requerimientos := requerimientos p @ [str_strip nuevo]\<rparr>)"
  by (simp add: agregar_requerimiento_def Let_def)

text \<open>
  Claim C6. \<open>agregar_requerimiento\<close> raises ValueError exactly when the text is empty or
  made of whitespace only; it raises nothing else; and when it raises, the record after
  the call is the record before it.
\<close>
theorem agregar_requerimiento_ValueError:
  "(fst (agregar_requerimiento p texto) = Inl ValueError
      \<longleftrightarrow> texto = [] \<or> (\<forall>c\<in>set texto. isspace c))
   \<and> (fst (agregar_requerimiento p texto) = Inl ValueError
        \<or> fst (agregar_requerimiento p texto) = Inr ())
   \<and> (fst (agregar_requerimiento p texto) = Inl ValueError
        \<longrightarrow> snd (agregar_requerimiento p texto) = p)"
proof (cases "texto = [] \<or> str_strip texto = []")
  case True
  then have "agregar_requerimiento p texto = (Inl ValueError, p)" by (rule agregar_vacio)
  moreover from True have "texto = [] \<or> (\<forall>c\<in>set texto. isspace c)"
    by (simp add: str_strip_Nil_iff)
  ultimately show ?thesis by simp
next
  case False
  then have "fst (agregar_requerimiento p texto) = Inr ()" by (simp add: agregar_no_vacio)
  moreover from False have "\<not> (texto = [] \<or> (\<forall>c\<in>set texto. isspace c))"
    by (simp add: str_strip_Nil_iff)
  ultimately show ?thesis by simp
qed

theorem agregar_requerimiento_ValueError_witness:
  "agregar_requerimiento proyecto_demo '''' = (Inl ValueError, proyecto_demo)
   \<and> agregar_requerimiento proyecto_demo ''   '' = (Inl ValueError, proyecto_demo)
   \<and> fst (agregar_requerimiento proyecto_demo ''Login'') = Inr ()"
proof -
  have w: "\<forall>c\<in>set ''   ''. isspace c" by (simp add: isspace_def)
  have n: "\<not> (''Login'' = [] \<or> (\<forall>c\<in>set ''Login''. isspace c))" by (simp add: isspace_def)
  from agregar_requerimiento_ValueError [of proyecto_demo "''''"]
  have a: "agregar_requerimiento proyecto_demo '''' = (Inl ValueError, proyecto_demo)"
    by (simp add: prod_eq_iff)
  from agregar_requerimiento_ValueError [of proyecto_demo "''   ''"] w
  have b: "agregar_requerimiento proyecto_demo ''   '' = (Inl ValueError, proyecto_demo)"
    by (simp add: prod_eq_iff)
  from agregar_requerimiento_ValueError [of proyecto_demo "''Login''"] n
  have c: "fst (agregar_requerimiento proyecto_demo ''Login'') = Inr ()"
    by blast
  from a b c show ?thesis by blast
qed

lemma duplicado_segun_spec_imp:
  assumes "duplicado_segun_spec reqs texto"
  shows "list_ex (\<lambda>r. str_lower (str_strip r) = str_lower (str_strip texto)) reqs"
proof -
  from assms obtain r where r: "r \<in> set reqs" "str_lower r = str_lower (str_strip texto)"
    by (auto simp add: duplicado_segun_spec_def list_ex_iff)
  have "str_lower (str_strip r) = str_strip (str_lower r)" by (simp add: str_strip_lower)
  also have "\<dots> = str_strip (str_lower (str_strip texto))" by (simp add: r)
  also have "\<dots> = str_lower (str_strip texto)" by (simp add: str_strip_lower str_strip_idem)
  finally show ?thesis using r(1) by (auto simp add: list_ex_iff)
qed

text \<open>
  Claim C5, as stated, fails: the project holds the requirement \<open>'' Login''\<close>, the text
  \<open>''login''\<close> equals no stored requirement under case-insensitive comparison, and still
  the call adds nothing, where the claim has it appended.
\<close>
theorem agregar_requerimiento_spec_counterexample:
  "requerimientos proyecto_sin_recortar = ['' Login'']
   \<and> \<not> duplicado_segun_spec (requerimientos proyecto_sin_recortar) ''login''
   \<and> agregar_requerimiento proyecto_sin_recortar ''login'' = (Inr (), proyecto_sin_recortar)
   \<and> snd (agregar_requerimiento proyecto_sin_recortar ''login'') \<noteq>
       proyecto_sin_recortar
         \<lparr>requerimientos := requerimientos proyecto_sin_recortar @ [str_strip ''login'']\<rparr>"
proof -
  have r: "requerimientos proyecto_sin_recortar = ['' Login'']"
    by (simp add: proyecto_sin_recortar_def ProyectoSoftware_def Let_def)
  have d: "\<not> duplicado_segun_spec ['' Login''] ''login''" by code_simp
  have n: "\<not> (''login'' = [] \<or> str_strip ''login'' = [])" by code_simp
  have e: "list_ex (\<lambda>r. str_lower (str_strip r) = str_lower (str_strip ''login'')) ['' Login'']"
    by code_simp
  have a: "agregar_requerimiento proyecto_sin_recortar ''login'' = (Inr (), proyecto_sin_recortar)"
    using agregar_no_vacio [OF n, of proyecto_sin_recortar] e unfolding r by simp
  have "requerimientos (snd (agregar_requerimiento proyecto_sin_recortar ''login'')) \<noteq>
        requerimientos (proyecto_sin_recortar
         \<lparr>requerimientos := requerimientos proyecto_sin_recortar @ [str_strip ''login'']\<rparr>)"
    unfolding a by (simp add: r)
  then have "snd (agregar_requerimiento proyecto_sin_recortar ''login'') \<noteq>
       proyecto_sin_recortar
         \<lparr>requerimientos := requerimientos proyecto_sin_recortar @ [str_strip ''login'']\<rparr>"
    by metis
  with r d a show ?thesis by (simp only: r) simp
qed

text \<open>
  Claim C5, amended. For a text that is neither empty nor all whitespace the call raises
  nothing. It leaves the record as it is when the stripped text equals, ignoring case,
  the stripped form of a stored requirement (the stored requirement is stripped too
  before it is compared); in particular when it equals a stored requirement as stored.
  Otherwise it appends the stripped text at the end. On a project without requirements,
  adding \<open>''Login''\<close> and then \<open>''  login  ''\<close> leaves the single requirement
  \<open>''Login''\<close>.
\<close>
theorem agregar_requerimiento_duplicados:
  "(\<not> (texto = [] \<or> (\<forall>c\<in>set texto. isspace c)) \<longrightarrow>
      fst (agregar_requerimiento p texto) = Inr ()
      \<and> (list_ex (\<lambda>r. str_lower (str_strip r) = str_lower (str_strip texto)) (requerimientos p)
           \<longrightarrow> snd (agregar_requerimiento p texto) = p)
      \<and> (duplicado_segun_spec (requerimientos p) texto
           \<longrightarrow> snd (agregar_requerimiento p texto) = p)
      \<and> (\<not> list_ex (\<lambda>r. str_lower (str_strip r) = str_lower (str_strip texto)) (requerimientos p)
           \<longrightarrow> snd (agregar_requerimiento p texto) =
                 p\<lparr>requerimientos := requerimientos p @ [str_strip texto]\<rparr>))
   \<and> (requerimientos p = [] \<longrightarrow>
        requerimientos
          (snd (agregar_requerimiento (snd (agregar_requerimiento p ''Login'')) ''  login  ''))
        = [''Login''])"
proof -
  have general: "fst (agregar_requerimiento p texto) = Inr ()
      \<and> (list_ex (\<lambda>r. str_lower (str_strip r) = str_lower (str_strip texto)) (requerimientos p)
           \<longrightarrow> snd (agregar_requerimiento p texto) = p)
      \<and> (duplicado_segun_spec (requerimientos p) texto
           \<longrightarrow> snd (agregar_requerimiento p texto) = p)
      \<and> (\<not> list_ex (\<lambda>r. str_lower (str_strip r) = str_lower (str_strip texto)) (requerimientos p)
           \<longrightarrow> snd (agregar_requerimiento p texto) =
                 p\<lparr>requerimientos := requerimientos p @ [str_strip texto]\<rparr>)"
    if "\<not> (texto = [] \<or> (\<forall>c\<in>set texto. isspace c))"
  proof -
    from that have "\<not> (texto = [] \<or> str_strip texto = [])" by (simp add: str_strip_Nil_iff)
    then have "agregar_requerimiento p texto =
       (Inr (),
        if list_ex (\<lambda>r. str_lower (str_strip r) = str_lower (str_strip texto)) (requerimientos p)
        then p else p\<lparr>requerimientos := requerimientos p @ [str_strip texto]\<rparr>)"
      by (rule agregar_no_vacio)
    then show ?thesis using duplicado_segun_spec_imp [of "requerimientos p" texto] by auto
  qed
  have login: "requerimientos
          (snd (agregar_requerimiento (snd (agregar_requerimiento p ''Login'')) ''  login  ''))
        = [''Login'']" if e: "requerimientos p = []"
  proof -
    have n1: "\<not> (''Login'' = [] \<or> str_strip ''Login'' = [])" by code_simp
    have n2: "\<not> (''  login  '' = [] \<or> str_strip ''  login  '' = [])" by code_simp
    have s1: "str_strip ''Login'' = ''Login''" by code_simp
    have l2: "list_ex (\<lambda>r. str_lower (str_strip r) = str_lower (str_strip ''  login  ''))
                [''Login'']" by code_simp
    have 1: "agregar_requerimiento p ''Login'' = (Inr (), p\<lparr>requerimientos := [''Login'']\<rparr>)"
      using agregar_no_vacio [OF n1, of p] unfolding e s1 by simp
    have 2: "agregar_requerimiento (p\<lparr>requerimientos := [''Login'']\<rparr>) ''  login  '' =
               (Inr (), p\<lparr>requerimientos := [''Login'']\<rparr>)"
      using agregar_no_vacio [OF n2, of "p\<lparr>requerimientos := [''Login'']\<rparr>"] l2 by simp
    show ?thesis unfolding 1 by (simp add: 2)
  qed
  from general login show ?thesis by blast
qed

theorem agregar_requerimiento_duplicados_witness:
  "agregar_requerimiento proyecto_demo ''Login'' =
     (Inr (), proyecto_demo\<lparr>requerimientos := [''Login'']\<rparr>)
   \<and> agregar_requerimiento (proyecto_demo\<lparr>requerimientos := [''Login'']\<rparr>) ''LOGIN '' =
     (Inr (), proyecto_demo\<lparr>requerimientos := [''Login'']\<rparr>)
   \<and> requerimientos
        (snd (agregar_requerimiento (snd (agregar_requerimiento proyecto_demo ''Login''))
           ''  login  ''))
      = [''Login'']"
proof -
  have e: "requerimientos proyecto_demo = []" by (simp add: proyecto_demo_def)
  have n1: "\<not> (''Login'' = [] \<or> (\<forall>c\<in>set ''Login''. isspace c))" by (simp add: isspace_def)
  have n2: "\<not> (''LOGIN '' = [] \<or> (\<forall>c\<in>set ''LOGIN ''. isspace c))" by (simp add: isspace_def)
  have x1: "\<not> list_ex (\<lambda>r. str_lower (str_strip r) = str_lower (str_strip ''Login''))
              (requerimientos proyecto_demo)" by (simp add: e)
  have s1: "str_strip ''Login'' = ''Login''" by code_simp
  have d2: "duplicado_segun_spec
              (requerimientos (proyecto_demo\<lparr>requerimientos := [''Login'']\<rparr>)) ''LOGIN ''"
    by (simp add: duplicado_segun_spec_def) code_simp
  note t1 = agregar_requerimiento_duplicados [of "''Login''" proyecto_demo]
  note t2 = agregar_requerimiento_duplicados
              [of "''LOGIN ''" "proyecto_demo\<lparr>requerimientos := [''Login'']\<rparr>"]
  from t1 n1 x1 have "fst (agregar_requerimiento proyecto_demo ''Login'') = Inr ()
     \<and> snd (agregar_requerimiento proyecto_demo ''Login'') =
         proyecto_demo\<lparr>requerimientos := requerimientos proyecto_demo @ [str_strip ''Login'']\<rparr>"
    by blast
  then have a: "agregar_requerimiento proyecto_demo ''Login'' =
     (Inr (), proyecto_demo\<lparr>requerimientos := [''Login'']\<rparr>)"
    unfolding e s1 by (simp add: prod_eq_iff)
  from t2 n2 d2 have "fst (agregar_requerimiento (proyecto_demo\<lparr>requerimientos := [''Login'']\<rparr>) ''LOGIN '') = Inr ()
     \<and> snd (agregar_requerimiento (proyecto_demo\<lparr>requerimientos := [''Login'']\<rparr>) ''LOGIN '') =
         proyecto_demo\<lparr>requerimientos := [''Login'']\<rparr>"
    by blast
  then have b: "agregar_requerimiento (proyecto_demo\<lparr>requerimientos := [''Login'']\<rparr>) ''LOGIN '' =
     (Inr (), proyecto_demo\<lparr>requerimientos := [''Login'']\<rparr>)"
    by (simp add: prod_eq_iff)
  from t1 e have c: "requerimientos
        (snd (agregar_requerimiento (snd (agregar_requerimiento proyecto_demo ''Login''))
           ''  login  ''))
      = [''Login'']" by blast
  from a b c show ?thesis by blast
qed

section \<open>Progress\<close>

text \<open>Two facts that tie \<open>binary64\<close> to rounding to nearest: \<open>ilog2\<close> is the binary
  exponent, and the rounded value lies within half a unit in the last place.\<close>

lemma bitlen_powi:
  assumes "0 < n"
  shows "2 powi (bitlen n - 1) \<le> (of_int n :: rat) \<and> (of_int n :: rat) < 2 powi (bitlen n)"
proof -
  from bitlen_bounds [OF assms]
  have b: "2 ^ nat (bitlen n - 1) \<le> n" "n < 2 ^ nat (bitlen n)" by simp_all
  have p: "1 \<le> bitlen n" using assms by (simp add: bitlen_alt_def)
  from b(1) have "(of_int (2 ^ nat (bitlen n - 1)) :: rat) \<le> of_int n"
    by (simp only: of_int_le_iff)
  then have 1: "2 powi (bitlen n - 1) \<le> (of_int n :: rat)"
    using p by (simp add: power_int_def)
  from b(2) have "(of_int n :: rat) < of_int (2 ^ nat (bitlen n))"
    by (simp only: of_int_less_iff)
  then have 2: "(of_int n :: rat) < 2 powi (bitlen n)"
    using p by (simp add: power_int_def)
  from 1 2 show ?thesis by blast
qed

lemma ilog2_bounds:
  assumes "0 < x"
  shows "2 powi (ilog2 x) \<le> x \<and> x < 2 powi (ilog2 x + 1)"
proof -
  obtain n d where q: "quotient_of x = (n, d)" by (cases "quotient_of x")
  then have d: "0 < d" by (rule quotient_of_denom_pos)
  from q have x: "x = of_int n / of_int d" by (rule quotient_of_div)
  with assms d have n: "0 < n" by (simp add: zero_less_divide_iff)
  define a where "a = bitlen n"
  define b where "b = bitlen d"
  from bitlen_powi [OF n] have N: "2 powi (a - 1) \<le> (of_int n :: rat)" "(of_int n :: rat) < 2 powi a"
    by (simp_all add: a_def)
  from bitlen_powi [OF d] have D: "2 powi (b - 1) \<le> (of_int d :: rat)" "(of_int d :: rat) < 2 powi b"
    by (simp_all add: b_def)
  have dp: "(0::rat) < of_int d" using d by simp
  have lo: "2 powi (a - b - 1) < x"
  proof -
    have "2 powi (a - b - 1) * (of_int d :: rat) < 2 powi (a - b - 1) * 2 powi b"
      using D(2) by (simp add: mult_strict_left_mono)
    also have "\<dots> = 2 powi (a - 1)"
      by (simp add: power_int_add [symmetric])
    also have "\<dots> \<le> of_int n" by (rule N(1))
    finally show ?thesis using dp by (simp add: x pos_less_divide_eq)
  qed
  have hi: "x < 2 powi (a - b + 1)"
  proof -
    have "(of_int n :: rat) < 2 powi a" by (rule N(2))
    also have "\<dots> = 2 powi (a - b + 1) * 2 powi (b - 1)"
      by (simp add: power_int_add [symmetric])
    also have "\<dots> \<le> 2 powi (a - b + 1) * of_int d"
      using D(1) by (simp add: mult_left_mono)
    finally show ?thesis using dp by (simp add: x pos_divide_less_eq)
  qed
  have i: "ilog2 x = (if 2 powi (a - b) \<le> x then a - b else a - b - 1)"
    by (simp add: ilog2_def q a_def b_def)
  show ?thesis
  proof (cases "2 powi (a - b) \<le> x")
    case True
    with hi i show ?thesis by simp
  next
    case False
    with lo i show ?thesis by simp
  qed
qed


lemma round_half_even_near: "\<bar>of_int (round_half_even q) - q\<bar> \<le> 1 / 2"
proof -
  have "of_int \<lfloor>q\<rfloor> \<le> q" "q < of_int \<lfloor>q\<rfloor> + 1" by linarith+
  then show ?thesis
    by (auto simp add: round_half_even_def Let_def abs_le_iff not_less)
qed

lemma binary64_near:
  "\<bar>binary64 x - x\<bar> \<le> 2 powi (max (ilog2 \<bar>x\<bar> - 52) (- 1074)) / 2"
proof (cases "x = 0")
  case True
  then show ?thesis by (simp add: binary64_def)
next
  case False
  define e where "e = max (ilog2 \<bar>x\<bar> - 52) (- 1074)"
  have p: "(0::rat) < 2 powi e" by simp
  have "\<bar>binary64 x - x\<bar> = \<bar>of_int (round_half_even (x / 2 powi e)) - x / 2 powi e\<bar> * 2 powi e"
  proof -
    have "binary64 x - x = (of_int (round_half_even (x / 2 powi e)) - x / 2 powi e) * 2 powi e"
      using False p by (simp add: binary64_def e_def Let_def left_diff_distrib)
    then show ?thesis using p by (simp add: abs_mult)
  qed
  also have "\<dots> \<le> 1 / 2 * 2 powi e"
    using round_half_even_near [of "x / 2 powi e"] p by (intro mult_right_mono) simp_all
  finally show ?thesis by (simp add: e_def)
qed

text \<open>A check of the rounding against a value every binary64 implementation agrees on:
  the float nearest to one tenth.\<close>

lemma binary64_decimo: "binary64 (1 / 10) = 3602879701896397 / 36028797018963968"
  by code_simp

lemma progreso_por_indice:
  "list_all
     (\<lambda>i. int_of_float (float_mul (truediv (int i + 1) 6) 100) = \<lfloor>(of_nat (i + 1) / 6 :: rat) * 100\<rfloor>
          \<and> int_of_float (float_mul (truediv (int i + 1) 6) 100) = [16, 33, 50, 66, 83, 100] ! i)
     [0, 1, 2, 3, 4, 5]"
  by code_simp

lemma resumen_progreso_idx:
  "resumen_progreso p =
     int_of_float (float_mul (truediv
        (int (case index_of CICLO_VIDA (fase_actual p) of Some i \<Rightarrow> i | None \<Rightarrow> 0) + 1) 6) 100)"
  by (simp add: resumen_progreso_def length_CICLO_VIDA)

lemma le5_cases: "i \<le> 5 \<Longrightarrow> i \<in> set [0, 1, 2, 3, 4, 5::nat]"
  by auto

lemma indice_le5:
  "(case index_of CICLO_VIDA f of Some i \<Rightarrow> i | None \<Rightarrow> 0) \<le> 5"
  by (auto split: option.splits dest: index_of_le5)

text \<open>
  Claim C4. \<open>resumen_progreso\<close> returns the floor of \<open>((index + 1) / 6) * 100\<close>, taken over
  the exact quotient, where \<open>index\<close> is the position of the current phase in the life
  cycle and 0 when the phase is not in it: the float arithmetic of the source loses
  nothing that the final truncation keeps. The value is 16 at index 0, 33 at index 1 and
  100 at index 5, and it depends on the current phase alone.
\<close>
theorem resumen_progreso_floor:
  "resumen_progreso p =
     \<lfloor>(of_nat ((case index_of CICLO_VIDA (fase_actual p) of Some i \<Rightarrow> i | None \<Rightarrow> 0) + 1) / 6
         :: rat) * 100\<rfloor>
   \<and> (index_of CICLO_VIDA (fase_actual p) = Some 0 \<longrightarrow> resumen_progreso p = 16)
   \<and> (index_of CICLO_VIDA (fase_actual p) = Some 1 \<longrightarrow> resumen_progreso p = 33)
   \<and> (index_of CICLO_VIDA (fase_actual p) = Some 5 \<longrightarrow> resumen_progreso p = 100)
   \<and> (index_of CICLO_VIDA (fase_actual p) = None \<longrightarrow> resumen_progreso p = 16)
   \<and> (fase_actual q = fase_actual p \<longrightarrow> resumen_progreso q = resumen_progreso p)"
proof -
  define k where "k = (case index_of CICLO_VIDA (fase_actual p) of Some i \<Rightarrow> i | None \<Rightarrow> 0)"
  have "k \<in> set [0, 1, 2, 3, 4, 5::nat]" unfolding k_def by (rule le5_cases) (rule indice_le5)
  with progreso_por_indice
  have v: "int_of_float (float_mul (truediv (int k + 1) 6) 100) = \<lfloor>(of_nat (k + 1) / 6 :: rat) * 100\<rfloor>
          \<and> int_of_float (float_mul (truediv (int k + 1) 6) 100) = [16, 33, 50, 66, 83, 100] ! k"
    unfolding list_all_iff by blast
  then have 1: "resumen_progreso p = \<lfloor>(of_nat (k + 1) / 6 :: rat) * 100\<rfloor>"
    by (simp add: resumen_progreso_idx k_def)
  from v have w: "resumen_progreso p = [16, 33, 50, 66, 83, 100] ! k"
    by (simp add: resumen_progreso_idx k_def)
  have 2: "resumen_progreso q = resumen_progreso p" if "fase_actual q = fase_actual p"
    using that by (simp add: resumen_progreso_idx)
  have 3: "index_of CICLO_VIDA (fase_actual p) = Some 0 \<longrightarrow> resumen_progreso p = 16"
    using w by (auto simp add: k_def)
  have 4: "index_of CICLO_VIDA (fase_actual p) = Some 1 \<longrightarrow> resumen_progreso p = 33"
    using w by (auto simp add: k_def)
  have 5: "index_of CICLO_VIDA (fase_actual p) = Some 5 \<longrightarrow> resumen_progreso p = 100"
    using w by (auto simp add: k_def)
  have 6: "index_of CICLO_VIDA (fase_actual p) = None \<longrightarrow> resumen_progreso p = 16"
    using w by (auto simp add: k_def)
  from 1 2 3 4 5 6 show ?thesis unfolding k_def by blast
qed

theorem resumen_progreso_floor_witness:
  "resumen_progreso proyecto_demo = 16
   \<and> resumen_progreso (proyecto_demo\<lparr>fase_actual := CICLO_VIDA ! 1\<rparr>) = 33
   \<and> resumen_progreso (proyecto_demo\<lparr>fase_actual := CICLO_VIDA ! 5\<rparr>) = 100
   \<and> resumen_progreso (proyecto_demo\<lparr>fase_actual := ''otra''\<rparr>) = 16
   \<and> resumen_progreso (proyecto_demo\<lparr>nombre := ''Otro''\<rparr>) = resumen_progreso proyecto_demo"
proof -
  have i0: "index_of CICLO_VIDA (fase_actual proyecto_demo) = Some 0"
    using index_of_CICLO_VIDA_nth [of 0] by (simp add: proyecto_demo_def CICLO_VIDA_def)
  have i1: "index_of CICLO_VIDA (fase_actual (proyecto_demo\<lparr>fase_actual := CICLO_VIDA ! 1\<rparr>)) = Some 1"
    by (simp add: index_of_CICLO_VIDA_nth)
  have i5: "index_of CICLO_VIDA (fase_actual (proyecto_demo\<lparr>fase_actual := CICLO_VIDA ! 5\<rparr>)) = Some 5"
    by (simp add: index_of_CICLO_VIDA_nth)
  have ix: "index_of CICLO_VIDA (fase_actual (proyecto_demo\<lparr>fase_actual := ''otra''\<rparr>)) = None"
    by (simp add: index_of_None CICLO_VIDA_def analisis_def)
  have f: "fase_actual (proyecto_demo\<lparr>nombre := ''Otro''\<rparr>) = fase_actual proyecto_demo" by simp
  from resumen_progreso_floor [of proyecto_demo "proyecto_demo\<lparr>nombre := ''Otro''\<rparr>"] i0 f
  have a: "resumen_progreso proyecto_demo = 16
     \<and> resumen_progreso (proyecto_demo\<lparr>nombre := ''Otro''\<rparr>) = resumen_progreso proyecto_demo"
    by blast
  from resumen_progreso_floor [of "proyecto_demo\<lparr>fase_actual := CICLO_VIDA ! 1\<rparr>" proyecto_demo] i1
  have b: "resumen_progreso (proyecto_demo\<lparr>fase_actual := CICLO_VIDA ! 1\<rparr>) = 33" by blast
  from resumen_progreso_floor [of "proyecto_demo\<lparr>fase_actual := CICLO_VIDA ! 5\<rparr>" proyecto_demo] i5
  have c: "resumen_progreso (proyecto_demo\<lparr>fase_actual := CICLO_VIDA ! 5\<rparr>) = 100" by blast
  from resumen_progreso_floor [of "proyecto_demo\<lparr>fase_actual := ''otra''\<rparr>" proyecto_demo] ix
  have d: "resumen_progreso (proyecto_demo\<lparr>fase_actual := ''otra''\<rparr>) = 16" by blast
  from a b c d show ?thesis by blast
qed

section \<open>Dates: printing and reading\<close>

lemma digit_val_digit: "k < 10 \<Longrightarrow> digit_val (digit k) = Some k"
  by (simp add: digit_val_def digit_def)

lemma digit_of_digit_val: "digit_val c = Some k \<Longrightarrow> k < 10 \<and> digit k = c"
proof -
  assume a: "digit_val c = Some k"
  then have r: "48 \<le> (of_char c :: nat)" "(of_char c :: nat) \<le> 57" "k = of_char c - 48"
    by (auto simp add: digit_val_def Let_def split: if_splits)
  then have "48 + k = of_char c" by simp
  then have "digit k = c" by (simp add: digit_def)
  with r show ?thesis by simp
qed

lemma numero_snoc:
  "numero acc (s @ [c]) =
     (case numero acc s of
        None \<Rightarrow> None
      | Some v \<Rightarrow> (case digit_val c of None \<Rightarrow> None | Some k \<Rightarrow> Some (10 * v + k)))"
  by (induction s arbitrary: acc) (auto split: option.splits)

lemma length_cifras: "length (cifras w n) = w"
  by (induction w arbitrary: n) auto

lemma numero_cifras: "numero 0 (cifras w n) = Some (n mod 10 ^ w)"
proof (induction w arbitrary: n)
  case 0
  then show ?case by simp
next
  case (Suc w)
  have "n mod (10 * 10 ^ w) = 10 * (n div 10 mod 10 ^ w) + n mod 10"
    by (rule mod_mult2_eq)
  with Suc show ?case by (simp add: numero_snoc digit_val_digit)
qed

lemma cifras_numero: "numero 0 s = Some n \<Longrightarrow> cifras (length s) n = s"
proof (induction s arbitrary: n rule: rev_induct)
  case Nil
  then show ?case by simp
next
  case (snoc c s)
  from snoc.prems obtain v k where v: "numero 0 s = Some v" and k: "digit_val c = Some k"
    and n: "n = 10 * v + k"
    by (auto simp add: numero_snoc split: option.splits)
  from k have kk: "k < 10" "digit k = c" using digit_of_digit_val by blast+
  from n kk have "n div 10 = v" "n mod 10 = k" by simp_all
  with snoc.IH [OF v] kk show ?case by simp
qed

lemma isspace_digit: "k < 10 \<Longrightarrow> \<not> isspace (digit k)"
  by (simp add: isspace_def digit_def)

lemma str_strip_isoformat: "str_strip (isoformat d) \<noteq> []"
proof -
  have "CHR ''-'' \<in> set (isoformat d)" by (simp add: isoformat_def)
  moreover have "\<not> isspace CHR ''-''" by (simp add: isspace_def)
  ultimately show ?thesis unfolding str_strip_Nil_iff by blast
qed

lemma isoformat_parts:
  "length (isoformat d) = 10" "isoformat d ! 4 = CHR ''-''" "isoformat d ! 7 = CHR ''-''"
  "take 4 (isoformat d) = cifras 4 (year d)"
  "take 2 (drop 5 (isoformat d)) = cifras 2 (month d)"
  "drop 8 (isoformat d) = cifras 2 (day d)"
  by (simp_all add: isoformat_def length_cifras nth_append)

lemma days_in_month_le: "days_in_month y m \<le> 31"
  by (simp add: days_in_month_def)

lemma leer_AAAA_MM_DD_isoformat:
  assumes "valid_date d"
  shows "leer_AAAA_MM_DD (isoformat d) = Some d"
proof -
  from assms have y: "year d mod 10 ^ 4 = year d" by (simp add: valid_date_def)
  from assms have m: "month d mod 10 ^ 2 = month d" by (simp add: valid_date_def)
  from assms days_in_month_le [of "year d" "month d"]
  have dd: "day d mod 10 ^ 2 = day d" by (simp add: valid_date_def)
  from assms show ?thesis
    unfolding leer_AAAA_MM_DD_def isoformat_parts numero_cifras y m dd
    by (simp add: Let_def valid_date_def)
qed

lemma leer_AAAA_MM_DD_Some:
  assumes "leer_AAAA_MM_DD s = Some d"
  shows "valid_date d \<and> isoformat d = s"
proof -
  from assms have l: "length s = 10" and s4: "s ! 4 = CHR ''-''" and s7: "s ! 7 = CHR ''-''"
    by (auto simp add: leer_AAAA_MM_DD_def split: if_splits)
  from assms l s4 s7 obtain y m dd where
    y: "numero 0 (take 4 s) = Some y" and m: "numero 0 (take 2 (drop 5 s)) = Some m"
    and dd: "numero 0 (drop 8 s) = Some dd"
    and d: "d = \<lparr>year = y, month = m, day = dd\<rparr>" and v: "valid_date d"
    by (auto simp add: leer_AAAA_MM_DD_def Let_def split: if_splits option.splits)
  from cifras_numero [OF y] l have cy: "cifras 4 y = take 4 s" by simp
  from cifras_numero [OF m] l have cm: "cifras 2 m = take 2 (drop 5 s)" by simp
  from cifras_numero [OF dd] l have cd: "cifras 2 dd = drop 8 s" by simp
  have "s = take 4 s @ [s ! 4] @ take 2 (drop 5 s) @ [s ! 7] @ drop 8 s"
  proof -
    from l obtain c0 c1 c2 c3 c4 c5 c6 c7 c8 c9 where
      "s = [c0, c1, c2, c3, c4, c5, c6, c7, c8, c9]"
      by (auto simp add: eval_nat_numeral length_Suc_conv)
    then show ?thesis by simp
  qed
  then have "s = cifras 4 y @ ''-'' @ cifras 2 m @ ''-'' @ cifras 2 dd"
    unfolding cy cm cd s4 s7 by simp
  with d v show ?thesis by (simp add: isoformat_def)
qed

section \<open>Export and load: errors\<close>

text \<open>
  Claim C7. \<open>cargar_json\<close> raises FileNotFoundError when there is no file at the path, and
  JSONDecodeError when the file holds text that is not a JSON document; either way the
  call yields the error and no project.
\<close>
theorem cargar_json_errores:
  "(fs (abspath env ruta) = None \<longrightarrow> cargar_json env fs ruta = Inl FileNotFoundError)
   \<and> (fs (abspath env ruta) = Some (Texto t) \<longrightarrow> cargar_json env fs ruta = Inl JSONDecodeError)"
  by (simp add: cargar_json_def)

theorem cargar_json_errores_witness:
  "cargar_json entorno_demo archivos_demo ''falta.json'' = Inl FileNotFoundError
   \<and> cargar_json entorno_demo archivos_demo ''no.json'' = Inl JSONDecodeError"
proof -
  have a: "archivos_demo (abspath entorno_demo ''falta.json'') = None"
    by (simp add: archivos_demo_def entorno_demo_def abspath_demo_def)
  have b: "archivos_demo (abspath entorno_demo ''no.json'') = Some (Texto ''not json'')"
    by (simp add: archivos_demo_def entorno_demo_def abspath_demo_def)
  from cargar_json_errores [of archivos_demo entorno_demo "''falta.json''" "''not json''"] a
  have 1: "cargar_json entorno_demo archivos_demo ''falta.json'' = Inl FileNotFoundError"
    by blast
  from cargar_json_errores [of archivos_demo entorno_demo "''no.json''" "''not json''"] b
  have 2: "cargar_json entorno_demo archivos_demo ''no.json'' = Inl JSONDecodeError"
    by blast
  from 1 2 show ?thesis by blast
qed

section \<open>Loading\<close>

lemma a_strs_map_JStr: "a_strs (map JStr xs) = Some xs"
  by (induction xs) auto

lemma map_of_sin_fechas:
  "map_of (sin_fechas raw) k =
     (if k = ''fecha_inicio'' \<or> k = ''fecha_fin_estimada'' then None else map_of raw k)"
  by (induction raw) (auto simp add: sin_fechas_def)

lemma iso_a_fecha_JNull: "iso_a_fecha env JNull = None"
  by (simp add: iso_a_fecha_def)

lemma construir_cases:
  obtains (error) e where "construir env n d r f e0 fi ff = Inl e"
      and "\<And>fi2 ff2. construir env n d r f e0 fi2 ff2 = Inl e"
  | (ok) n1 d1 rs es fase where
      "\<And>fi2 ff2. construir env n d r f e0 fi2 ff2 =
          Inr (ProyectoSoftware (hoy env) n1 d1 (Some rs) fase (Some es) fi2 ff2)"
proof (cases "py_list r")
  case (Inl e)
  then show ?thesis by (intro error [of e]) (simp_all add: construir_def)
next
  case r: (Inr rs0)
  show ?thesis
  proof (cases "py_list e0")
    case (Inl e)
    with r show ?thesis by (intro error [of e]) (simp_all add: construir_def)
  next
    case e: (Inr es0)
    show ?thesis
    proof (cases "fase_o_defecto f")
      case (Inl e)
      with r e show ?thesis by (intro error [of e]) (simp_all add: construir_def)
    next
      case f: (Inr fase)
      show ?thesis
      proof (cases "\<exists>n1 d1 rs es. a_str n = Some n1 \<and> a_str d = Some d1
                       \<and> a_strs rs0 = Some rs \<and> a_strs es0 = Some es")
        case True
        then obtain n1 d1 rs es where "a_str n = Some n1" "a_str d = Some d1"
          "a_strs rs0 = Some rs" "a_strs es0 = Some es" by blast
        with r e f show ?thesis by (intro ok [of n1 d1 rs fase es]) (simp add: construir_def)
      next
        case False
        with r e f show ?thesis
          by (intro error [of Untypable]) (auto simp add: construir_def split: option.splits)
      qed
    qed
  qed
qed

lemma construir_fechas:
  "construir env n d r f e0 fi ff =
     (case construir env n d r f e0 None None of
        Inl e \<Rightarrow> Inl e
      | Inr q \<Rightarrow>
          Inr (q\<lparr>fecha_inicio := (case fi of None \<Rightarrow> Some (hoy env) | Some x \<Rightarrow> Some x),
                  fecha_fin_estimada := ff\<rparr>))"
proof (cases rule: construir_cases [of env n d r f e0 fi ff])
  case (error e)
  then show ?thesis by simp
next
  case (ok n1 d1 rs es fase)
  then show ?thesis by (simp add: ProyectoSoftware_def Let_def)
qed


lemma desde_dict_fechas:
  "desde_dict env raw =
     (case desde_dict env (sin_fechas raw) of
        Inl e \<Rightarrow> Inl e
      | Inr q \<Rightarrow>
          Inr (q\<lparr>fecha_inicio :=
                    (case iso_a_fecha env (dict_get raw ''fecha_inicio'' JNull) of
                       None \<Rightarrow> Some (hoy env) | Some d \<Rightarrow> Some d),
                  fecha_fin_estimada :=
                    iso_a_fecha env (dict_get raw ''fecha_fin_estimada'' JNull)\<rparr>))"
proof -
  have g: "dict_get (sin_fechas raw) k dflt =
       (if k = ''fecha_inicio'' \<or> k = ''fecha_fin_estimada'' then dflt else dict_get raw k dflt)"
    for k dflt
    by (simp add: dict_get_def map_of_sin_fechas)
  have "desde_dict env (sin_fechas raw) =
          construir env (dict_get raw ''nombre'' (JStr ''Proyecto sin nombre''))
            (dict_get raw ''descripcion'' (JStr []))
            (o_lista_vacia (dict_get raw ''requerimientos'' JNull))
            (dict_get raw ''fase_actual'' (JStr analisis))
            (o_lista_vacia (dict_get raw ''equipo'' JNull)) None None"
    by (simp add: desde_dict_def g iso_a_fecha_JNull)
  moreover have "desde_dict env raw =
          construir env (dict_get raw ''nombre'' (JStr ''Proyecto sin nombre''))
            (dict_get raw ''descripcion'' (JStr []))
            (o_lista_vacia (dict_get raw ''requerimientos'' JNull))
            (dict_get raw ''fase_actual'' (JStr analisis))
            (o_lista_vacia (dict_get raw ''equipo'' JNull))
            (iso_a_fecha env (dict_get raw ''fecha_inicio'' JNull))
            (iso_a_fecha env (dict_get raw ''fecha_fin_estimada'' JNull))"
    by (simp add: desde_dict_def)
  ultimately show ?thesis by (simp only: construir_fechas [symmetric])
qed



lemma cargar_json_dict:
  "fs (abspath env ruta) = Some (Json (JObj raw)) \<Longrightarrow> cargar_json env fs ruta = desde_dict env raw"
  by (simp add: cargar_json_def)



lemma iso_a_fecha_isoformat: "valid_date d \<Longrightarrow> iso_a_fecha env (JStr (isoformat d)) = Some d"
  by (simp add: iso_a_fecha_def date_fromisoformat_def str_strip_isoformat
      leer_AAAA_MM_DD_isoformat)

lemma iso_a_fecha_fecha_a_iso:
  "(case f of None \<Rightarrow> True | Some d \<Rightarrow> valid_date d) \<Longrightarrow> iso_a_fecha env (fecha_a_iso f) = f"
  by (cases f) (simp_all add: fecha_a_iso_def iso_a_fecha_JNull iso_a_fecha_isoformat)

lemma o_lista_vacia_JArr: "o_lista_vacia (JArr xs) = JArr xs"
  by (simp add: o_lista_vacia_def)

lemma fase_o_defecto_JStr: "fase_o_defecto (JStr f) = Inr (if f = [] then None else Some f)"
  by (simp add: fase_o_defecto_def)

lemma ProyectoSoftware_fase_opt:
  "fase_actual (ProyectoSoftware today n d rs (if f = [] then None else Some f) e fi ff) =
     (if str_lower (str_strip f) \<in> set CICLO_VIDA then str_lower (str_strip f) else analisis)"
proof (cases "f = []")
  case True
  have "[] \<notin> set CICLO_VIDA" by (simp add: CICLO_VIDA_def analisis_def)
  with True show ?thesis
    by (simp add: ProyectoSoftware_fase_None str_strip_def str_lower_def)
next
  case False
  then show ?thesis by (simp add: ProyectoSoftware_fase)
qed

lemma ProyectoSoftware_campos:
  "ProyectoSoftware today n d (Some rs) f (Some es) (Some fi) ff =
     \<lparr>nombre = n, descripcion = d, requerimientos = rs,
      fase_actual = fase_actual (ProyectoSoftware today n d (Some rs) f (Some es) (Some fi) ff),
      equipo = es, fecha_inicio = Some fi, fecha_fin_estimada = ff\<rparr>"
  by (simp add: ProyectoSoftware_def Let_def)

lemma desde_dict_datos:
  assumes "fecha_inicio r = Some d" and "valid_date d"
    and "case fecha_fin_estimada r of None \<Rightarrow> True | Some f \<Rightarrow> valid_date f"
    and "datos r = JObj raw"
  shows "desde_dict env raw =
           Inr (r\<lparr>fase_actual :=
                   (if str_lower (str_strip (fase_actual r)) \<in> set CICLO_VIDA
                    then str_lower (str_strip (fase_actual r)) else analisis)\<rparr>)"
proof -
  from assms(4) have raw: "raw =
     [(''nombre'', JStr (nombre r)),
      (''descripcion'', JStr (descripcion r)),
      (''requerimientos'', JArr (map JStr (requerimientos r))),
      (''fase_actual'', JStr (fase_actual r)),
      (''equipo'', JArr (map JStr (equipo r))),
      (''fecha_inicio'', fecha_a_iso (fecha_inicio r)),
      (''fecha_fin_estimada'', fecha_a_iso (fecha_fin_estimada r)),
      (''ciclo_vida'', JArr (map JStr CICLO_VIDA)),
      (''progreso_aproximado'', JInt (resumen_progreso r))]"
    by (simp add: datos_def)
  have g: "dict_get raw ''nombre'' (JStr ''Proyecto sin nombre'') = JStr (nombre r)"
    "dict_get raw ''descripcion'' (JStr []) = JStr (descripcion r)"
    "dict_get raw ''requerimientos'' JNull = JArr (map JStr (requerimientos r))"
    "dict_get raw ''equipo'' JNull = JArr (map JStr (equipo r))"
    "dict_get raw ''fase_actual'' (JStr analisis) = JStr (fase_actual r)"
    "dict_get raw ''fecha_inicio'' JNull = fecha_a_iso (fecha_inicio r)"
    "dict_get raw ''fecha_fin_estimada'' JNull = fecha_a_iso (fecha_fin_estimada r)"
    unfolding raw dict_get_def by simp_all
  from assms(1,2) have fi: "iso_a_fecha env (fecha_a_iso (fecha_inicio r)) = Some d"
    by (simp add: iso_a_fecha_fecha_a_iso)
  from assms(3) have ff: "iso_a_fecha env (fecha_a_iso (fecha_fin_estimada r)) = fecha_fin_estimada r"
    by (rule iso_a_fecha_fecha_a_iso)
  have "desde_dict env raw =
          Inr (ProyectoSoftware (hoy env) (nombre r) (descripcion r) (Some (requerimientos r))
                 (if fase_actual r = [] then None else Some (fase_actual r))
                 (Some (equipo r)) (Some d) (fecha_fin_estimada r))"
    unfolding desde_dict_def Let_def g fi ff
    by (simp add: construir_def o_lista_vacia_JArr fase_o_defecto_JStr a_strs_map_JStr)
  also have "ProyectoSoftware (hoy env) (nombre r) (descripcion r) (Some (requerimientos r))
                 (if fase_actual r = [] then None else Some (fase_actual r))
                 (Some (equipo r)) (Some d) (fecha_fin_estimada r) =
             r\<lparr>fase_actual :=
                   (if str_lower (str_strip (fase_actual r)) \<in> set CICLO_VIDA
                    then str_lower (str_strip (fase_actual r)) else analisis)\<rparr>"
    by (subst ProyectoSoftware_campos) (simp add: ProyectoSoftware_fase_opt assms(1))
  finally show ?thesis .
qed

lemma fase_normal_id:
  assumes "f \<in> set CICLO_VIDA"
  shows "(if str_lower (str_strip f) \<in> set CICLO_VIDA then str_lower (str_strip f) else analisis) = f"
proof -
  from fase_CICLO_VIDA assms have "str_lower (str_strip f) = f"
    unfolding list_all_iff by blast
  with assms show ?thesis by simp
qed




section \<open>Export\<close>

lemma exportar_json_destino:
  "exportar_json env fs p ruta sobrescribir =
     (if \<not> sobrescribir \<and> fs (destino env p ruta) \<noteq> None then (Inl FileExistsError, fs)
      else (case abrir_escritura env (destino env p ruta) of
              Some e \<Rightarrow> (Inl e, fs)
            | None \<Rightarrow> (Inr (destino env p ruta),
                        fs(destino env p ruta \<mapsto> Json (datos p)))))"
  by (simp add: exportar_json_def destino_def Let_def split: option.splits)

lemma destino_demo:
  "destino entorno_demo p (Some ''no.json'') = ''/home/demo/no.json''"
  "destino entorno_demo p (Some ''nodir/x.json'') = ''/home/demo/nodir/x.json''"
  "destino entorno_demo p (Some ''rico.json'') = ''/home/demo/rico.json''"
  "destino entorno_demo p (Some ''p.json'') = ''/home/demo/p.json''"
  by (simp_all add: destino_def entorno_demo_def abspath_demo_def)

lemma abrir_demo_casos:
  "abrir_escritura entorno_demo ''/home/demo/no.json'' = None"
  "abrir_escritura entorno_demo ''/home/demo/rico.json'' = None"
  "abrir_escritura entorno_demo ''/home/demo/p.json'' = None"
  "abrir_escritura entorno_demo ''/home/demo/Demo_proyecto.json'' = None"
  "abrir_escritura entorno_demo ''/home/demo/nodir/x.json'' = Some FileNotFoundError"
  by (simp_all add: entorno_demo_def abrir_demo_def)




section \<open>Export, then load\<close>

lemma exportar_json_escrito:
  assumes "exportar_json env fs r ruta sobrescribir = (Inr path, fs2)"
  shows "fs2 path = Some (Json (datos r))"
  using assms
  by (auto simp add: exportar_json_destino split: if_splits option.splits)

lemma cargar_datos:
  assumes "fecha_inicio r = Some d" and "valid_date d"
    and "case fecha_fin_estimada r of None \<Rightarrow> True | Some f \<Rightarrow> valid_date f"
    and "fs2 (abspath env2 q) = Some (Json (datos r))"
  shows "cargar_json env2 fs2 q =
           Inr (r\<lparr>fase_actual :=
                   (if str_lower (str_strip (fase_actual r)) \<in> set CICLO_VIDA
                    then str_lower (str_strip (fase_actual r)) else analisis)\<rparr>)"
proof -
  obtain raw where raw: "datos r = JObj raw" by (simp add: datos_def)
  with assms(4) have "cargar_json env2 fs2 q = desde_dict env2 raw"
    by (simp add: cargar_json_dict)
  also have "\<dots> = Inr (r\<lparr>fase_actual :=
                   (if str_lower (str_strip (fase_actual r)) \<in> set CICLO_VIDA
                    then str_lower (str_strip (fase_actual r)) else analisis)\<rparr>)"
    using assms(1-3) raw by (rule desde_dict_datos)
  finally show ?thesis .
qed

lemma fechas_demo: "valid_date fecha_demo" "valid_date \<lparr>year = 2026, month = 4, day = 30\<rparr>"
  by code_simp+

text \<open>
  Claim C1, as stated, fails: a project whose start date is set and whose phase has been
  assigned the value \<open>'' PRUEBAS ''\<close> is exported without error, and the file loads as a
  project whose phase is \<open>''pruebas''\<close>, not the phase of the project exported.
\<close>
theorem exportar_y_cargar_fase_asignada_counterexample:
  "fecha_inicio proyecto_fase_asignada = Some fecha_demo
   \<and> fase_actual proyecto_fase_asignada = '' PRUEBAS ''
   \<and> exportar_json entorno_demo archivos_demo proyecto_fase_asignada (Some ''p.json'') True =
       (Inr ''/home/demo/p.json'',
        archivos_demo(''/home/demo/p.json'' \<mapsto> Json (datos proyecto_fase_asignada)))
   \<and> cargar_json entorno_demo
        (archivos_demo(''/home/demo/p.json'' \<mapsto> Json (datos proyecto_fase_asignada)))
        ''/home/demo/p.json''
      = Inr (proyecto_fase_asignada\<lparr>fase_actual := ''pruebas''\<rparr>)
   \<and> fase_actual (proyecto_fase_asignada\<lparr>fase_actual := ''pruebas''\<rparr>) \<noteq>
       fase_actual proyecto_fase_asignada"
proof -
  have i: "fecha_inicio proyecto_fase_asignada = Some fecha_demo"
    by (simp add: proyecto_fase_asignada_def proyecto_rico_def)
  have f: "fase_actual proyecto_fase_asignada = '' PRUEBAS ''"
    by (simp add: proyecto_fase_asignada_def)
  have ff: "case fecha_fin_estimada proyecto_fase_asignada of None \<Rightarrow> True | Some f \<Rightarrow> valid_date f"
    by (simp add: proyecto_fase_asignada_def proyecto_rico_def fechas_demo)
  have e: "exportar_json entorno_demo archivos_demo proyecto_fase_asignada (Some ''p.json'') True =
       (Inr ''/home/demo/p.json'',
        archivos_demo(''/home/demo/p.json'' \<mapsto> Json (datos proyecto_fase_asignada)))"
    by (simp add: exportar_json_destino destino_demo abrir_demo_casos)
  have a: "abspath entorno_demo ''/home/demo/p.json'' = ''/home/demo/p.json''"
    by (simp add: entorno_demo_def abspath_demo_def)
  have n: "str_lower (str_strip '' PRUEBAS '') = ''pruebas''" by code_simp
  have m: "''pruebas'' \<in> set CICLO_VIDA" by (simp add: CICLO_VIDA_def)
  have "cargar_json entorno_demo
        (archivos_demo(''/home/demo/p.json'' \<mapsto> Json (datos proyecto_fase_asignada)))
        ''/home/demo/p.json''
      = Inr (proyecto_fase_asignada\<lparr>fase_actual :=
              (if str_lower (str_strip (fase_actual proyecto_fase_asignada)) \<in> set CICLO_VIDA
               then str_lower (str_strip (fase_actual proyecto_fase_asignada)) else analisis)\<rparr>)"
    by (rule cargar_datos [OF i fechas_demo(1) ff]) (simp add: a)
  then have l: "cargar_json entorno_demo
        (archivos_demo(''/home/demo/p.json'' \<mapsto> Json (datos proyecto_fase_asignada)))
        ''/home/demo/p.json''
      = Inr (proyecto_fase_asignada\<lparr>fase_actual := ''pruebas''\<rparr>)"
    unfolding f n using m by (simp only: if_True)
  have d: "fase_actual (proyecto_fase_asignada\<lparr>fase_actual := ''pruebas''\<rparr>) \<noteq>
       fase_actual proyecto_fase_asignada"
    by (simp add: f)
  from i f e l d show ?thesis by blast
qed

text \<open>
  Claim C1, amended. Export a project whose start date is set (its dates being days of
  the calendar, as every \<open>datetime.date\<close> is), and load the file that was written, under
  any path that resolves to the path returned. If the phase of the project is one of the
  life cycle, as the constructor, the two mutators and the loader leave it, the project
  loaded is equal to the project exported in all its fields: name, description,
  requirements, phase, team and the two dates. For any phase, the load succeeds and
  yields the project with its phase passed through the normalisation of the constructor
  (stripped, lowercased, and replaced by the first phase if that is not a phase), the
  other six fields being equal.
\<close>
theorem exportar_y_cargar:
  assumes "fecha_inicio r = Some d" and "valid_date d"
    and "case fecha_fin_estimada r of None \<Rightarrow> True | Some f \<Rightarrow> valid_date f"
    and "exportar_json env fs r ruta sobrescribir = (Inr path, fs2)"
    and "abspath env2 q = path"
  shows "(fase_actual r \<in> set CICLO_VIDA \<longrightarrow> cargar_json env2 fs2 q = Inr r)
         \<and> cargar_json env2 fs2 q =
             Inr (r\<lparr>fase_actual :=
                     (if str_lower (str_strip (fase_actual r)) \<in> set CICLO_VIDA
                      then str_lower (str_strip (fase_actual r)) else CICLO_VIDA ! 0)\<rparr>)"
proof -
  from assms(4) have "fs2 path = Some (Json (datos r))" by (rule exportar_json_escrito)
  with assms(5) have "fs2 (abspath env2 q) = Some (Json (datos r))" by simp
  with assms(1-3) have 1: "cargar_json env2 fs2 q = Inr (r\<lparr>fase_actual :=
                   (if str_lower (str_strip (fase_actual r)) \<in> set CICLO_VIDA
                    then str_lower (str_strip (fase_actual r)) else analisis)\<rparr>)"
    by (rule cargar_datos)
  have a0: "CICLO_VIDA ! 0 = analisis" by (simp add: CICLO_VIDA_def)
  have "cargar_json env2 fs2 q = Inr r" if "fase_actual r \<in> set CICLO_VIDA"
    unfolding 1 fase_normal_id [OF that] by simp
  with 1 show ?thesis unfolding a0 by blast
qed

theorem exportar_y_cargar_witness:
  "exportar_json entorno_demo archivos_demo proyecto_rico (Some ''rico.json'') False =
     (Inr ''/home/demo/rico.json'',
      archivos_demo(''/home/demo/rico.json'' \<mapsto> Json (datos proyecto_rico)))
   \<and> cargar_json entorno_311
        (archivos_demo(''/home/demo/rico.json'' \<mapsto> Json (datos proyecto_rico)))
        ''rico.json''
      = Inr proyecto_rico
   \<and> requerimientos proyecto_rico = [''Registro de estudiantes'', ''Reportes'']
   \<and> equipo proyecto_rico = [''Ana'', ''Luis'']
   \<and> fase_actual proyecto_rico = ''pruebas''
   \<and> fecha_fin_estimada proyecto_rico = Some \<lparr>year = 2026, month = 4, day = 30\<rparr>"
proof -
  have i: "fecha_inicio proyecto_rico = Some fecha_demo" by (simp add: proyecto_rico_def)
  have ff: "case fecha_fin_estimada proyecto_rico of None \<Rightarrow> True | Some f \<Rightarrow> valid_date f"
    by (simp add: proyecto_rico_def fechas_demo)
  have e: "exportar_json entorno_demo archivos_demo proyecto_rico (Some ''rico.json'') False =
     (Inr ''/home/demo/rico.json'',
      archivos_demo(''/home/demo/rico.json'' \<mapsto> Json (datos proyecto_rico)))"
    by (simp add: exportar_json_destino destino_demo abrir_demo_casos archivos_demo_def)
  have q: "abspath entorno_311 ''rico.json'' = ''/home/demo/rico.json''"
    by (simp add: entorno_311_def entorno_demo_def abspath_demo_def)
  have f: "fase_actual proyecto_rico = ''pruebas''"
    by (simp add: proyecto_rico_def CICLO_VIDA_def)
  have m: "fase_actual proyecto_rico \<in> set CICLO_VIDA"
    by (simp add: proyecto_rico_def nth_CICLO_VIDA_in)
  from exportar_y_cargar [OF i fechas_demo(1) ff e q] m
  have l: "cargar_json entorno_311
        (archivos_demo(''/home/demo/rico.json'' \<mapsto> Json (datos proyecto_rico)))
        ''rico.json''
      = Inr proyecto_rico" by blast
  have r: "requerimientos proyecto_rico = [''Registro de estudiantes'', ''Reportes'']"
    "equipo proyecto_rico = [''Ana'', ''Luis'']"
    "fecha_fin_estimada proyecto_rico = Some \<lparr>year = 2026, month = 4, day = 30\<rparr>"
    by (simp_all add: proyecto_rico_def)
  from e l r f show ?thesis by blast
qed

section \<open>Reading a date field\<close>

lemma leer_AAAA_MM_DD_strip: "leer_AAAA_MM_DD s = Some d \<Longrightarrow> str_strip s \<noteq> []"
  using leer_AAAA_MM_DD_Some [of s d] str_strip_isoformat [of d] by auto

text \<open>
  Claim C9, as stated, fails under an interpreter that reads the compact form as CPython
  3.11 does: the string \<open>''2025011201''\<close> is not of the form \<open>YYYY-MM-DD\<close> and
  \<open>datetime.fromisoformat\<close> does not take it, so the claim has the field absent; but
  \<open>iso_a_fecha\<close> returns what \<open>date.fromisoformat\<close> returns, the 12th of January 2025.
\<close>
theorem iso_a_fecha_compacta_counterexample:
  "leer_AAAA_MM_DD ''2025011201'' = None
   \<and> datetime_fromisoformat entorno_311 ''2025011201'' = None
   \<and> date_fromisoformat entorno_311 ''2025011201'' = Some \<lparr>year = 2025, month = 1, day = 12\<rparr>
   \<and> iso_a_fecha entorno_311 (JStr ''2025011201'') = Some \<lparr>year = 2025, month = 1, day = 12\<rparr>
   \<and> iso_a_fecha entorno_311 (JStr ''2025011201'') \<noteq> None"
proof -
  have 1: "leer_AAAA_MM_DD ''2025011201'' = None" by code_simp
  have 2: "datetime_fromisoformat entorno_311 ''2025011201'' = None" by code_simp
  have 3: "date_fromisoformat entorno_311 ''2025011201'' = Some \<lparr>year = 2025, month = 1, day = 12\<rparr>"
    by code_simp
  have 4: "str_strip ''2025011201'' \<noteq> []" by code_simp
  from 3 4 have 5: "iso_a_fecha entorno_311 (JStr ''2025011201'') =
      Some \<lparr>year = 2025, month = 1, day = 12\<rparr>"
    by (simp add: iso_a_fecha_def)
  from 1 2 3 5 show ?thesis by simp
qed

text \<open>
  Claim C9, amended. A date field read by \<open>cargar_json\<close>: a string of the form
  \<open>YYYY-MM-DD\<close> that spells a day of the calendar becomes that day, and so does any other
  string that is not blank and that the interpreter's \<open>date.fromisoformat\<close> reads; failing
  that, a string that is not blank and that \<open>datetime.fromisoformat\<close> reads becomes the
  date part of what it reads; a string that neither reader takes, a blank string, a
  value that is not a string (null included) and a missing key give no date. None of
  this raises: the outcome of the load is the outcome for the same dict without its date
  keys, with the end date set to what was read and the start date set to what was read
  or, when nothing was read, to today.
\<close>
theorem iso_a_fecha_casos:
  "(leer_AAAA_MM_DD s = Some d \<longrightarrow>
      iso_a_fecha env (JStr s) = Some d \<and> valid_date d \<and> isoformat d = s)
   \<and> (date_fromisoformat env s = Some d \<and> str_strip s \<noteq> [] \<longrightarrow>
        iso_a_fecha env (JStr s) = Some d)
   \<and> (date_fromisoformat env s = None \<and> str_strip s \<noteq> [] \<and> datetime_fromisoformat env s = Some dt
        \<longrightarrow> iso_a_fecha env (JStr s) = Some (datetime_date dt))
   \<and> (date_fromisoformat env s = None \<and> datetime_fromisoformat env s = None
        \<longrightarrow> iso_a_fecha env (JStr s) = None)
   \<and> (str_strip s = [] \<longrightarrow> iso_a_fecha env (JStr s) = None)
   \<and> (a_str v = None \<longrightarrow> iso_a_fecha env v = None)
   \<and> (map_of raw k = None \<longrightarrow> iso_a_fecha env (dict_get raw k JNull) = None)
   \<and> desde_dict env raw =
       (case desde_dict env (sin_fechas raw) of
          Inl e \<Rightarrow> Inl e
        | Inr q \<Rightarrow>
            Inr (q\<lparr>fecha_inicio :=
                      (case iso_a_fecha env (dict_get raw ''fecha_inicio'' JNull) of
                         None \<Rightarrow> Some (hoy env) | Some x \<Rightarrow> Some x),
                    fecha_fin_estimada :=
                      iso_a_fecha env (dict_get raw ''fecha_fin_estimada'' JNull)\<rparr>))"
proof -
  have 1: "leer_AAAA_MM_DD s = Some d \<longrightarrow>
      iso_a_fecha env (JStr s) = Some d \<and> valid_date d \<and> isoformat d = s"
    using leer_AAAA_MM_DD_Some [of s d] leer_AAAA_MM_DD_strip [of s d]
    by (simp add: iso_a_fecha_def date_fromisoformat_def)
  have 2: "date_fromisoformat env s = Some d \<and> str_strip s \<noteq> [] \<longrightarrow>
        iso_a_fecha env (JStr s) = Some d"
    by (simp add: iso_a_fecha_def)
  have 3: "date_fromisoformat env s = None \<and> str_strip s \<noteq> [] \<and> datetime_fromisoformat env s = Some dt
        \<longrightarrow> iso_a_fecha env (JStr s) = Some (datetime_date dt)"
    by (simp add: iso_a_fecha_def)
  have 4: "date_fromisoformat env s = None \<and> datetime_fromisoformat env s = None
        \<longrightarrow> iso_a_fecha env (JStr s) = None"
    by (simp add: iso_a_fecha_def)
  have 5: "str_strip s = [] \<longrightarrow> iso_a_fecha env (JStr s) = None"
    by (simp add: iso_a_fecha_def)
  have 6: "a_str v = None \<longrightarrow> iso_a_fecha env v = None"
    by (cases v) (simp_all add: iso_a_fecha_def)
  have 7: "map_of raw k = None \<longrightarrow> iso_a_fecha env (dict_get raw k JNull) = None"
    by (simp add: dict_get_def iso_a_fecha_JNull)
  from 1 2 3 4 5 6 7 desde_dict_fechas [of env raw] show ?thesis by blast
qed

theorem iso_a_fecha_casos_witness:
  "iso_a_fecha entorno_demo (JStr ''2025-11-01'') = Some fecha_demo
   \<and> iso_a_fecha entorno_311 (JStr ''20251101'') = Some fecha_demo
   \<and> iso_a_fecha entorno_demo (JStr ''2025-11-01T10:30'') = Some fecha_demo
   \<and> iso_a_fecha entorno_demo (JStr ''pronto'') = None
   \<and> iso_a_fecha entorno_demo (JStr ''20251101'') = None
   \<and> iso_a_fecha entorno_demo (JStr ''   '') = None
   \<and> iso_a_fecha entorno_demo (JInt 20251101) = None
   \<and> iso_a_fecha entorno_demo (dict_get dict_fechas ''otra'' JNull) = None
   \<and> desde_dict entorno_demo dict_fechas =
       Inr \<lparr>nombre = ''Demo'', descripcion = [], requerimientos = [],
            fase_actual = CICLO_VIDA ! 0, equipo = [],
            fecha_inicio = Some fecha_demo,
            fecha_fin_estimada = Some \<lparr>year = 2026, month = 4, day = 30\<rparr>\<rparr>"
proof -
  have d1: "leer_AAAA_MM_DD ''2025-11-01'' = Some fecha_demo" by code_simp
  have c1: "date_fromisoformat entorno_311 ''20251101'' = Some fecha_demo
     \<and> str_strip ''20251101'' \<noteq> []" by code_simp
  have d2: "date_fromisoformat entorno_demo ''2025-11-01T10:30'' = None
     \<and> str_strip ''2025-11-01T10:30'' \<noteq> []
     \<and> datetime_fromisoformat entorno_demo ''2025-11-01T10:30'' =
         Some \<lparr>year = 2025, month = 11, day = 1, hour = 10, minute = 30, second = 0,
               microsecond = 0\<rparr>"
    by code_simp
  have d3: "date_fromisoformat entorno_demo ''pronto'' = None
     \<and> datetime_fromisoformat entorno_demo ''pronto'' = None"
    by code_simp
  have c3: "date_fromisoformat entorno_demo ''20251101'' = None
     \<and> datetime_fromisoformat entorno_demo ''20251101'' = None"
    by code_simp
  have b: "str_strip ''   '' = []" by code_simp
  have d4: "a_str (JInt 20251101) = None" by simp
  have d5: "map_of dict_fechas ''otra'' = None" by (simp add: dict_fechas_def)
  have dd: "datetime_date \<lparr>year = 2025, month = 11, day = 1, hour = 10, minute = 30, second = 0,
               microsecond = 0\<rparr> = fecha_demo"
    by (simp add: datetime_date_def fecha_demo_def)
  have s: "desde_dict entorno_demo (sin_fechas dict_fechas) =
       Inr \<lparr>nombre = ''Demo'', descripcion = [], requerimientos = [],
            fase_actual = CICLO_VIDA ! 0, equipo = [],
            fecha_inicio = Some fecha_demo, fecha_fin_estimada = None\<rparr>"
    by code_simp
  have f1: "iso_a_fecha entorno_demo (dict_get dict_fechas ''fecha_inicio'' JNull) = None"
    by code_simp
  have f2: "iso_a_fecha entorno_demo (dict_get dict_fechas ''fecha_fin_estimada'' JNull) =
              Some \<lparr>year = 2026, month = 4, day = 30\<rparr>"
    by code_simp
  have h: "hoy entorno_demo = fecha_demo" by (simp add: entorno_demo_def)
  note t1 = iso_a_fecha_casos [of "''2025-11-01''" fecha_demo entorno_demo _ JNull dict_fechas "''otra''"]
  note t1c = iso_a_fecha_casos [of "''20251101''" fecha_demo entorno_311 _ JNull dict_fechas "''otra''"]
  note t2 = iso_a_fecha_casos [of "''2025-11-01T10:30''" fecha_demo entorno_demo
      "\<lparr>year = 2025, month = 11, day = 1, hour = 10, minute = 30, second = 0, microsecond = 0\<rparr>"
      JNull dict_fechas "''otra''"]
  note t3 = iso_a_fecha_casos [of "''pronto''" fecha_demo entorno_demo _ "JInt 20251101"
      dict_fechas "''otra''"]
  note t3c = iso_a_fecha_casos [of "''20251101''" fecha_demo entorno_demo _ JNull dict_fechas "''otra''"]
  note t4 = iso_a_fecha_casos [of "''   ''" fecha_demo entorno_demo _ JNull dict_fechas "''otra''"]
  from t1 d1 have a: "iso_a_fecha entorno_demo (JStr ''2025-11-01'') = Some fecha_demo" by blast
  from t1c c1 have ac: "iso_a_fecha entorno_311 (JStr ''20251101'') = Some fecha_demo" by blast
  from t2 d2 have "iso_a_fecha entorno_demo (JStr ''2025-11-01T10:30'') =
      Some (datetime_date \<lparr>year = 2025, month = 11, day = 1, hour = 10, minute = 30, second = 0,
               microsecond = 0\<rparr>)" by blast
  then have b2: "iso_a_fecha entorno_demo (JStr ''2025-11-01T10:30'') = Some fecha_demo"
    unfolding dd .
  from t3 d3 have c: "iso_a_fecha entorno_demo (JStr ''pronto'') = None" by blast
  from t3c c3 have cc: "iso_a_fecha entorno_demo (JStr ''20251101'') = None" by blast
  from t4 b have bl: "iso_a_fecha entorno_demo (JStr ''   '') = None" by blast
  from t3 d4 have d: "iso_a_fecha entorno_demo (JInt 20251101) = None" by blast
  from t3 d5 have e: "iso_a_fecha entorno_demo (dict_get dict_fechas ''otra'' JNull) = None" by blast
  from t3 have "desde_dict entorno_demo dict_fechas =
       (case desde_dict entorno_demo (sin_fechas dict_fechas) of
          Inl e \<Rightarrow> Inl e
        | Inr q \<Rightarrow>
            Inr (q\<lparr>fecha_inicio :=
                      (case iso_a_fecha entorno_demo (dict_get dict_fechas ''fecha_inicio'' JNull) of
                         None \<Rightarrow> Some (hoy entorno_demo) | Some x \<Rightarrow> Some x),
                    fecha_fin_estimada :=
                      iso_a_fecha entorno_demo (dict_get dict_fechas ''fecha_fin_estimada'' JNull)\<rparr>))"
    by blast
  then have g: "desde_dict entorno_demo dict_fechas =
       Inr \<lparr>nombre = ''Demo'', descripcion = [], requerimientos = [],
            fase_actual = CICLO_VIDA ! 0, equipo = [],
            fecha_inicio = Some fecha_demo,
            fecha_fin_estimada = Some \<lparr>year = 2026, month = 4, day = 30\<rparr>\<rparr>"
    unfolding s f1 f2 h by simp
  from a ac b2 c cc bl d e g show ?thesis by blast
qed

end
